theory Spec2Isabelle
  imports Main
begin

section \<open>JavaScript values, errors and plain objects\<close>

text \<open>
  The generator keeps its tables in plain JavaScript objects (object literals). Such an
  object has own properties and inherits from \<open>Object.prototype\<close>; the code reads it
  with \<open>obj[k]\<close>, which looks through the prototype, writes it with \<open>obj[k] = v\<close> and
  \<open>Object.assign\<close>, and enumerates its own properties with \<open>Object.keys\<close>,
  \<open>Object.values\<close> and \<open>Object.entries\<close>. \<open>Object.prototype\<close> is taken as the runtime
  creates it, with its twelve members.
\<close>

definition objectPrototypeKeys :: "string list" where
  "objectPrototypeKeys =
     [''constructor'', ''__defineGetter__'', ''__defineSetter__'', ''hasOwnProperty'',
      ''__lookupGetter__'', ''__lookupSetter__'', ''isPrototypeOf'',
      ''propertyIsEnumerable'', ''toString'', ''valueOf'', ''__proto__'',
      ''toLocaleString'']"

text \<open>
  The values that a read of a scalar map can give, besides \<open>undefined\<close>: a string, or the
  member that the object inherits from \<open>Object.prototype\<close> under the key (a built-in
  function; under \<open>__proto__\<close> the prototype object itself). The inherited values are
  truthy and are not strings.
\<close>

datatype js_value = is_Str: Str string | Inherited string

text \<open>
  Conversion to a string, as a template literal does it. A built-in function prints as
  the engine prints native code (the text of V8); the prototype object prints as
  \<open>[object Object]\<close>.
\<close>

definition to_string :: "js_value \<Rightarrow> string" where
  "to_string v =
     (case v of
        Str s \<Rightarrow> s
      | Inherited k \<Rightarrow>
          if k = ''__proto__'' then ''[object Object]''
          else ''function '' @ (if k = ''constructor'' then ''Object'' else k)
               @ ''() { [native code] }'')"

text \<open>The one error that the generator's own code can run into: a call of a missing method.\<close>

datatype js_error = TypeError

text \<open>
  An object is the list of its own properties in the order of enumeration: the keys that
  are array indices (canonical decimal numerals below \<open>2^32 - 1\<close>) first, in ascending
  numeric order, then the other keys in the order of their creation.
\<close>

type_synonym 'v js_object = "(string \<times> 'v) list"

definition decimal :: "string \<Rightarrow> int" where
  "decimal s = foldl (\<lambda>n c. 10 * n + (of_char c - 48)) 0 s"

definition array_index :: "string \<Rightarrow> int option" where
  "array_index k =
     (if k \<noteq> [] \<and> list_all (\<lambda>c. c \<in> set ''0123456789'') k
         \<and> (hd k \<noteq> CHR ''0'' \<or> length k = 1) \<and> decimal k < 4294967295
      then Some (decimal k) else None)"

text \<open>A new property whose key is the array index \<open>i\<close> goes before the first key that is not a smaller index.\<close>

fun js_insert_index :: "int \<Rightarrow> string \<Rightarrow> 'v \<Rightarrow> 'v js_object \<Rightarrow> 'v js_object" where
  "js_insert_index i k v [] = [(k, v)]"
| "js_insert_index i k v (p # ps) =
     (case array_index (fst p) of
        None \<Rightarrow> (k, v) # p # ps
      | Some j \<Rightarrow> if j < i then p # js_insert_index i k v ps else (k, v) # p # ps)"

text \<open>
  \<open>obj[k] = v\<close> on a plain object that is not frozen. An own property keeps its position
  and takes the value. Otherwise the key \<open>__proto__\<close> reaches the setter that
  \<open>Object.prototype\<close> provides: it creates no own property (it replaces the prototype
  when the value is an object and ignores a string; the prototype it installs here is an
  entry of the same table, which inherits from \<open>Object.prototype\<close> itself, so the setter
  stays in reach). Any other key becomes a new own property.
\<close>

definition js_set :: "string \<Rightarrow> 'v \<Rightarrow> 'v js_object \<Rightarrow> 'v js_object" where
  "js_set k v ps =
     (if k \<in> set (map fst ps) then map (\<lambda>p. if fst p = k then (k, v) else p) ps
      else if k = ''__proto__'' then ps
      else (case array_index k of
              None \<Rightarrow> ps @ [(k, v)]
            | Some i \<Rightarrow> js_insert_index i k v ps))"

text \<open>\<open>Object.assign(target, source)\<close>: every own property of the source is set on the target, in its order.\<close>

fun object_assign :: "'v js_object \<Rightarrow> 'v js_object \<Rightarrow> 'v js_object" where
  "object_assign target [] = target"
| "object_assign target ((k, v) # src) = object_assign (js_set k v target) src"

text \<open>\<open>lines.join(sep)\<close> on an array of strings.\<close>

fun join :: "string \<Rightarrow> string list \<Rightarrow> string" where
  "join sep [] = []"
| "join sep [x] = x"
| "join sep (x # y # ys) = x @ sep @ join sep (y # ys)"

text \<open>\<open>xs.map(f)\<close> with a callback that may throw: the first throw ends the call.\<close>

fun mapE :: "('a \<Rightarrow> 'e + 'b) \<Rightarrow> 'a list \<Rightarrow> 'e + 'b list" where
  "mapE f [] = Inr []"
| "mapE f (x # xs) =
     (case f x of
        Inl e \<Rightarrow> Inl e
      | Inr y \<Rightarrow> (case mapE f xs of Inl e \<Rightarrow> Inl e | Inr ys \<Rightarrow> Inr (y # ys)))"

text \<open>Sequencing of two steps the first of which may throw.\<close>

definition bindE :: "'e + 'a \<Rightarrow> ('a \<Rightarrow> 'e + 'b) \<Rightarrow> 'e + 'b" where
  "bindE m k = (case m of Inl e \<Rightarrow> Inl e | Inr x \<Rightarrow> k x)"

section \<open>The syntax tree handed over by the external parser\<close>

datatype Kind =
    OBJECT_TYPE_DEFINITION
  | INPUT_OBJECT_TYPE_DEFINITION
  | SCALAR_TYPE_DEFINITION
  | ENUM_TYPE_DEFINITION
  | INTERFACE_TYPE_DEFINITION
  | UNION_TYPE_DEFINITION

text \<open>The definition kinds that \<open>parseExtendedTypes\<close> has no case for.\<close>

datatype OtherKind =
    OPERATION_DEFINITION
  | FRAGMENT_DEFINITION
  | SCHEMA_DEFINITION
  | DIRECTIVE_DEFINITION
  | SCHEMA_EXTENSION
  | SCALAR_TYPE_EXTENSION
  | OBJECT_TYPE_EXTENSION
  | INTERFACE_TYPE_EXTENSION
  | UNION_TYPE_EXTENSION
  | ENUM_TYPE_EXTENSION
  | INPUT_OBJECT_TYPE_EXTENSION

datatype TypeNode =
    NamedType string
  | ListType TypeNode
  | NonNullType TypeNode

text \<open>
  Optional members of a node (\<open>description?\<close>, \<open>fields?\<close>, \<open>arguments?\<close>, \<open>values?\<close>,
  \<open>types?\<close>) are options: \<open>None\<close> is the absent member that the source reads with
  \<open>?.\<close> and replaces by \<open>[]\<close> or leaves \<open>undefined\<close>.
\<close>

record InputValueDefinitionNode =
  iv_name :: string
  iv_type :: TypeNode
  iv_description :: "string option"

record FieldDefinitionNode =
  fd_name :: string
  fd_arguments :: "InputValueDefinitionNode list option"
  fd_type :: TypeNode
  fd_description :: "string option"

datatype DefinitionNode =
    ObjectTypeDefinition string "string option" "FieldDefinitionNode list option"
  | InputObjectTypeDefinition string "string option" "InputValueDefinitionNode list option"
  | ScalarTypeDefinition string "string option"
  | EnumTypeDefinition string "string option" "string list option"
  | InterfaceTypeDefinition string "string option" "FieldDefinitionNode list option"
  | UnionTypeDefinition string "string option" "string list option"
  | OtherDefinition OtherKind

type_synonym DocumentNode = "DefinitionNode list"

section \<open>The scalar type registry and the type-name resolver\<close>

text \<open>
  A scalar map holds strings; \<open>Partial<GraphQLScalarTypeMap>\<close> also admits \<open>undefined\<close> as
  the value of a key, which is the value \<open>None\<close>.
\<close>

type_synonym GraphQLScalarTypeMap = "string option js_object"

text \<open>The module-level \<open>typeMap\<close> as the module initialises it.\<close>

definition typeMap :: GraphQLScalarTypeMap where
  "typeMap =
     [(''ID'', Some ''string''), (''String'', Some ''string''), (''Int'', Some ''number''),
      (''Float'', Some ''number''), (''Boolean'', Some ''boolean'')]"

definition operationTypes :: "string list" where
  "operationTypes = [''Query'', ''Mutation'', ''Subscription'']"

text \<open>
  \<open>map[k]\<close> on a scalar map: the own property when there is one, else the member
  inherited from \<open>Object.prototype\<close>, else \<open>undefined\<close> (the result \<open>None\<close>).
\<close>

definition js_get :: "GraphQLScalarTypeMap \<Rightarrow> string \<Rightarrow> js_value option" where
  "js_get obj k =
     (case map_of obj k of
        Some v \<Rightarrow> map_option Str v
      | None \<Rightarrow> if k \<in> set objectPrototypeKeys then Some (Inherited k) else None)"

text \<open>
  \<open>getTypeName\<close> reads the live \<open>typeMap\<close>; the model takes its current entries as the
  first argument. \<open>typeMap[typeName] || typeName\<close> gives the name when the read is
  \<open>undefined\<close> or the empty string, which are falsy, and gives what was read otherwise,
  string or not. The template literals of the two wrapper cases convert the inner result
  to a string.
\<close>

fun getTypeName :: "GraphQLScalarTypeMap \<Rightarrow> TypeNode \<Rightarrow> js_value" where
  "getTypeName tm (NonNullType t) = Str (to_string (getTypeName tm t))"
| "getTypeName tm (ListType t) = Str (to_string (getTypeName tm t) @ ''[]'')"
| "getTypeName tm (NamedType typeName) =
     (case js_get tm typeName of
        None \<Rightarrow> Str typeName
      | Some (Str mapped) \<Rightarrow> if mapped = [] then Str typeName else Str mapped
      | Some (Inherited k) \<Rightarrow> Inherited k)"

text \<open>
  \<open>updateScalarTypeMap(map)\<close> is \<open>Object.assign(typeMap, map)\<close>; the model returns the
  entries of \<open>typeMap\<close> after the call.
\<close>

definition updateScalarTypeMap ::
  "GraphQLScalarTypeMap \<Rightarrow> GraphQLScalarTypeMap \<Rightarrow> GraphQLScalarTypeMap" where
  "updateScalarTypeMap ovr tm = object_assign tm ovr"

section \<open>The normalised model\<close>

text \<open>
  The members that hold a flattened type are declared as strings and hold what
  \<open>getTypeName\<close> returned.
\<close>

record FieldInfo =
  fi_kind :: Kind
  fi_name :: string
  fi_type :: js_value
  fi_description :: "string option"

record TypeDefinitionInfo =
  td_kind :: Kind
  td_name :: string
  td_fields :: "FieldInfo list"
  td_description :: "string option"

record EnumTypeInfo =
  en_kind :: Kind
  en_name :: string
  en_values :: "string list"
  en_description :: "string option"

record InterfaceTypeInfo =
  if_kind :: Kind
  if_name :: string
  if_fields :: "FieldInfo list"
  if_description :: "string option"

record UnionTypeInfo =
  un_kind :: Kind
  un_name :: string
  un_types :: "string list"
  un_description :: "string option"

record ExtendedTypeMap =
  objects :: "TypeDefinitionInfo js_object"
  inputs :: "TypeDefinitionInfo js_object"
  scalars :: "TypeDefinitionInfo js_object"
  enums :: "EnumTypeInfo js_object"
  interfaces :: "InterfaceTypeInfo js_object"
  unions :: "UnionTypeInfo js_object"

record OperationArg =
  oa_name :: string
  oa_type :: js_value

record OperationField =
  of_name :: string
  of_args :: "OperationArg list"
  of_returnType :: js_value

type_synonym OperationsMap = "OperationField list js_object"

text \<open>
  \<open>GenerateOptions\<close>: every member is optional. \<open>None\<close> is a member that is absent or
  \<open>undefined\<close>; the source reads both the same way (\<open>options.prefix || ''\<close>, a
  truthiness test of a flag).
\<close>

record GenerateOptions =
  opt_prefix :: "string option"
  opt_suffix :: "string option"
  useEnumType :: "bool option"
  useInterfaceType :: "bool option"
  outputDir :: "string option"
  strictNullChecks :: "bool option"

record GenerateResult =
  filename :: string
  content :: string

section \<open>The operation extractor\<close>

definition operationArg :: "GraphQLScalarTypeMap \<Rightarrow> InputValueDefinitionNode \<Rightarrow> OperationArg" where
  "operationArg tm arg = \<lparr>oa_name = iv_name arg, oa_type = getTypeName tm (iv_type arg)\<rparr>"

text \<open>\<open>field.arguments?.map(...) || []\<close>: an array is truthy, so only the absent member gives \<open>[]\<close>.\<close>

definition operationField :: "GraphQLScalarTypeMap \<Rightarrow> FieldDefinitionNode \<Rightarrow> OperationField" where
  "operationField tm field =
     \<lparr>of_name = fd_name field,
      of_args = (case fd_arguments field of
                   None \<Rightarrow> []
                 | Some as \<Rightarrow> map (operationArg tm) as),
      of_returnType = getTypeName tm (fd_type field)\<rparr>"

text \<open>
  \<open>operations[operationType].push(x)\<close>. The key is one of the three keys the map is
  created with (the guard \<open>operationTypes.includes\<close> stands before it), so the list is
  always there; on a map without the key the model changes nothing.
\<close>

fun js_push :: "string \<Rightarrow> 'a \<Rightarrow> 'a list js_object \<Rightarrow> 'a list js_object" where
  "js_push k x [] = []"
| "js_push k x ((k', xs) # ps) =
     (if k' = k then (k', xs @ [x]) # ps else (k', xs) # js_push k x ps)"

fun parseOperations_body ::
  "GraphQLScalarTypeMap \<Rightarrow> DefinitionNode \<Rightarrow> OperationsMap \<Rightarrow> OperationsMap" where
  "parseOperations_body tm (ObjectTypeDefinition n d fs) operations =
     (if n \<in> set operationTypes
      then fold (\<lambda>field ops. js_push n (operationField tm field) ops)
             (case fs of None \<Rightarrow> [] | Some fl \<Rightarrow> fl) operations
      else operations)"
| "parseOperations_body tm other operations = operations"

definition parseOperations :: "GraphQLScalarTypeMap \<Rightarrow> DocumentNode \<Rightarrow> OperationsMap" where
  "parseOperations tm document =
     fold (parseOperations_body tm) document
       [(''Query'', []), (''Mutation'', []), (''Subscription'', [])]"

section \<open>The document classifier\<close>

definition fieldInfo :: "Kind \<Rightarrow> GraphQLScalarTypeMap \<Rightarrow> FieldDefinitionNode \<Rightarrow> FieldInfo" where
  "fieldInfo k tm f =
     \<lparr>fi_kind = k, fi_name = fd_name f, fi_type = getTypeName tm (fd_type f),
      fi_description = fd_description f\<rparr>"

definition inputFieldInfo :: "GraphQLScalarTypeMap \<Rightarrow> InputValueDefinitionNode \<Rightarrow> FieldInfo" where
  "inputFieldInfo tm f =
     \<lparr>fi_kind = INPUT_OBJECT_TYPE_DEFINITION, fi_name = iv_name f,
      fi_type = getTypeName tm (iv_type f), fi_description = iv_description f\<rparr>"

definition objectInfo ::
  "GraphQLScalarTypeMap \<Rightarrow> string \<Rightarrow> string option \<Rightarrow> FieldDefinitionNode list option
     \<Rightarrow> TypeDefinitionInfo" where
  "objectInfo tm n d fs =
     \<lparr>td_kind = OBJECT_TYPE_DEFINITION, td_name = n,
      td_fields = (case fs of None \<Rightarrow> []
                   | Some fl \<Rightarrow> map (fieldInfo OBJECT_TYPE_DEFINITION tm) fl),
      td_description = d\<rparr>"

definition inputInfo ::
  "GraphQLScalarTypeMap \<Rightarrow> string \<Rightarrow> string option \<Rightarrow> InputValueDefinitionNode list option
     \<Rightarrow> TypeDefinitionInfo" where
  "inputInfo tm n d fs =
     \<lparr>td_kind = INPUT_OBJECT_TYPE_DEFINITION, td_name = n,
      td_fields = (case fs of None \<Rightarrow> [] | Some fl \<Rightarrow> map (inputFieldInfo tm) fl),
      td_description = d\<rparr>"

definition scalarInfo :: "string \<Rightarrow> string option \<Rightarrow> TypeDefinitionInfo" where
  "scalarInfo n d =
     \<lparr>td_kind = SCALAR_TYPE_DEFINITION, td_name = n, td_fields = [], td_description = d\<rparr>"

definition enumInfo :: "string \<Rightarrow> string option \<Rightarrow> string list option \<Rightarrow> EnumTypeInfo" where
  "enumInfo n d vs =
     \<lparr>en_kind = ENUM_TYPE_DEFINITION, en_name = n,
      en_values = (case vs of None \<Rightarrow> [] | Some names \<Rightarrow> names), en_description = d\<rparr>"

definition interfaceInfo ::
  "GraphQLScalarTypeMap \<Rightarrow> string \<Rightarrow> string option \<Rightarrow> FieldDefinitionNode list option
     \<Rightarrow> InterfaceTypeInfo" where
  "interfaceInfo tm n d fs =
     \<lparr>if_kind = INTERFACE_TYPE_DEFINITION, if_name = n,
      if_fields = (case fs of None \<Rightarrow> []
                   | Some fl \<Rightarrow> map (fieldInfo INTERFACE_TYPE_DEFINITION tm) fl),
      if_description = d\<rparr>"

definition unionInfo :: "string \<Rightarrow> string option \<Rightarrow> string list option \<Rightarrow> UnionTypeInfo" where
  "unionInfo n d ts =
     \<lparr>un_kind = UNION_TYPE_DEFINITION, un_name = n,
      un_types = (case ts of None \<Rightarrow> [] | Some names \<Rightarrow> names), un_description = d\<rparr>"

text \<open>The body of the loop of \<open>parseExtendedTypes\<close>: the \<open>switch\<close> on the definition kind.\<close>

fun parseExtendedTypes_body ::
  "GraphQLScalarTypeMap \<Rightarrow> DefinitionNode \<Rightarrow> ExtendedTypeMap \<Rightarrow> ExtendedTypeMap" where
  "parseExtendedTypes_body tm (ObjectTypeDefinition n d fs) result =
     result\<lparr>objects := js_set n (objectInfo tm n d fs) (objects result)\<rparr>"
| "parseExtendedTypes_body tm (InputObjectTypeDefinition n d fs) result =
     result\<lparr>inputs := js_set n (inputInfo tm n d fs) (inputs result)\<rparr>"
| "parseExtendedTypes_body tm (ScalarTypeDefinition n d) result =
     result\<lparr>scalars := js_set n (scalarInfo n d) (scalars result)\<rparr>"
| "parseExtendedTypes_body tm (EnumTypeDefinition n d vs) result =
     result\<lparr>enums := js_set n (enumInfo n d vs) (enums result)\<rparr>"
| "parseExtendedTypes_body tm (InterfaceTypeDefinition n d fs) result =
     result\<lparr>interfaces := js_set n (interfaceInfo tm n d fs) (interfaces result)\<rparr>"
| "parseExtendedTypes_body tm (UnionTypeDefinition n d ts) result =
     result\<lparr>unions := js_set n (unionInfo n d ts) (unions result)\<rparr>"
| "parseExtendedTypes_body tm (OtherDefinition k) result = result"

definition emptyExtendedTypeMap :: ExtendedTypeMap where
  "emptyExtendedTypeMap =
     \<lparr>objects = [], inputs = [], scalars = [], enums = [], interfaces = [], unions = []\<rparr>"

definition parseExtendedTypes :: "GraphQLScalarTypeMap \<Rightarrow> DocumentNode \<Rightarrow> ExtendedTypeMap" where
  "parseExtendedTypes tm document =
     fold (parseExtendedTypes_body tm) document emptyExtendedTypeMap"

section \<open>The declaration renderer\<close>

text \<open>
  \<open>getScalarTypeMap()\<close> is \<open>Object.freeze({ ...typeMap })\<close>: a new, frozen plain object
  holding a copy of the current entries of \<open>typeMap\<close>.
\<close>

record frozen_copy =
  fc_props :: GraphQLScalarTypeMap
  fc_frozen :: bool

definition getScalarTypeMap :: "GraphQLScalarTypeMap \<Rightarrow> frozen_copy" where
  "getScalarTypeMap tm = \<lparr>fc_props = tm, fc_frozen = True\<rparr>"

definition formatTypeName :: "string \<Rightarrow> GenerateOptions \<Rightarrow> string" where
  "formatTypeName name options =
     (let prefix = (case opt_prefix options of None \<Rightarrow> '''' | Some p \<Rightarrow> p);
          suffix = (case opt_suffix options of None \<Rightarrow> '''' | Some q \<Rightarrow> q)
      in prefix @ name @ suffix)"

definition endsWith :: "string \<Rightarrow> string \<Rightarrow> bool" where
  "endsWith s e = (length e \<le> length s \<and> drop (length s - length e) s = e)"

text \<open>
  \<open>getTypeScriptType\<close> is declared on strings and receives what the model holds. On a
  value that is not a string, \<open>type.endsWith\<close> is not a function and the call throws.
  \<open>type.slice(0, -2)\<close> on a string of at least two characters is
  \<open>take (length ty - 2) ty\<close>. \<open>scalarMap[type]\<close> is returned when it is truthy, string or
  not; the template literal of the list case converts the inner result to a string.
\<close>

function getTypeScriptType ::
  "GraphQLScalarTypeMap \<Rightarrow> js_value \<Rightarrow> GenerateOptions \<Rightarrow> js_error + js_value" where
  "getTypeScriptType tm (Inherited k) options = Inl TypeError"
| "getTypeScriptType tm (Str ty) options =
     (if endsWith ty ''[]''
      then (case getTypeScriptType tm (Str (take (length ty - 2) ty)) options of
              Inl e \<Rightarrow> Inl e
            | Inr inner \<Rightarrow> Inr (Str (to_string inner @ ''[]'')))
      else (let formattedName = formatTypeName ty options;
                scalarMap = getScalarTypeMap tm
            in case js_get (fc_props scalarMap) ty of
                 None \<Rightarrow> Inr (Str formattedName)
               | Some (Str mapped) \<Rightarrow>
                   if mapped \<noteq> [] then Inr (Str mapped) else Inr (Str formattedName)
               | Some (Inherited k) \<Rightarrow> Inr (Inherited k)))"
  by pat_completeness auto
termination
  by (relation "measure (\<lambda>(tm, ty, options). case ty of Str s \<Rightarrow> length s | Inherited k \<Rightarrow> 0)")
     (auto simp: endsWith_def)

declare getTypeScriptType.simps [simp del]

text \<open>
  \<open>field.type.includes('!')\<close> is reached after \<open>getTypeScriptType\<close> returned, so on a string;
  for the one-character needle it is membership of the character. (On a value that is
  not a string \<open>includes\<close> is not a function either.)
\<close>

definition generateFieldDeclaration ::
  "GraphQLScalarTypeMap \<Rightarrow> FieldInfo \<Rightarrow> GenerateOptions \<Rightarrow> js_error + string" where
  "generateFieldDeclaration tm field options =
     (case getTypeScriptType tm (fi_type field) options of
        Inl e \<Rightarrow> Inl e
      | Inr tsType \<Rightarrow>
          (case fi_type field of
             Inherited k \<Rightarrow> Inl TypeError
           | Str ty \<Rightarrow>
               (let optional = (if CHR ''!'' \<notin> set ty \<and> strictNullChecks options = Some True
                                then ''?'' else '''')
                in Inr (''  '' @ fi_name field @ optional @ '': '' @ to_string tsType @ '';''))))"

definition generateTypeDefinition ::
  "GraphQLScalarTypeMap \<Rightarrow> TypeDefinitionInfo \<Rightarrow> GenerateOptions \<Rightarrow> js_error + string" where
  "generateTypeDefinition tm info options =
     (let typeName = formatTypeName (td_name info) options
      in case mapE (\<lambda>f. generateFieldDeclaration tm f options) (td_fields info) of
           Inl e \<Rightarrow> Inl e
         | Inr fieldLines \<Rightarrow>
             (let fieldText = join ''\<newline>'' fieldLines
              in if td_kind info = SCALAR_TYPE_DEFINITION
                 then Inr (''export type '' @ typeName @ '' = string;'')
                 else Inr (''export interface '' @ typeName @ '' {\<newline>'' @ fieldText
                           @ ''\<newline>}'')))"

definition generateEnumDeclaration :: "EnumTypeInfo \<Rightarrow> GenerateOptions \<Rightarrow> string" where
  "generateEnumDeclaration info options =
     (let enumName = formatTypeName (en_name info) options;
          valueLines = join '',\<newline>''
                         (map (\<lambda>v. ''  '' @ v @ '' = '' @ [CHR 0x27] @ v @ [CHR 0x27])
                            (en_values info))
      in if useEnumType options = Some True
         then ''export const '' @ enumName @ '' = {\<newline>'' @ valueLines
              @ ''\<newline>} as const;\<newline>\<newline>export type '' @ enumName
              @ '' = typeof '' @ enumName @ ''[keyof typeof '' @ enumName @ ''];''
         else ''export enum '' @ enumName @ '' {\<newline>'' @ valueLines @ ''\<newline>}'')"

definition generateInterfaceDeclaration ::
  "GraphQLScalarTypeMap \<Rightarrow> InterfaceTypeInfo \<Rightarrow> GenerateOptions \<Rightarrow> js_error + string" where
  "generateInterfaceDeclaration tm info options =
     (let interfaceName = formatTypeName (if_name info) options
      in case mapE (\<lambda>f. generateFieldDeclaration tm f options) (if_fields info) of
           Inl e \<Rightarrow> Inl e
         | Inr fieldLines \<Rightarrow>
             (let fieldText = join ''\<newline>'' fieldLines
              in if useInterfaceType options = Some True
                 then Inr (''export interface '' @ interfaceName @ '' {\<newline>'' @ fieldText
                           @ ''\<newline>}'')
                 else Inr (''export type '' @ interfaceName @ '' = {\<newline>'' @ fieldText
                           @ ''\<newline>};'')))"

definition generateUnionDeclaration :: "UnionTypeInfo \<Rightarrow> GenerateOptions \<Rightarrow> string" where
  "generateUnionDeclaration info options =
     (let unionName = formatTypeName (un_name info) options;
          members = join '' | '' (map (\<lambda>t. formatTypeName t options) (un_types info))
      in ''export type '' @ unionName @ '' = '' @ members @ '';'')"

text \<open>
  \<open>{ prefix: '', ..., ...options }\<close>: a default stands in for an absent member.
\<close>

definition orDefault :: "'a \<Rightarrow> 'a option \<Rightarrow> 'a option" where
  "orDefault d x = (case x of None \<Rightarrow> Some d | Some y \<Rightarrow> Some y)"

definition banner :: "string \<Rightarrow> string list" where
  "banner title = [''/* Auto-generated by koatty-graphql */'', '''', ''// '' @ title, '''']"

text \<open>The loop of an aggregate renderer pushes a declaration and an empty line per entry.\<close>

definition declarationLines :: "string list \<Rightarrow> string list" where
  "declarationLines declarations = concat (map (\<lambda>d. [d, '''']) declarations)"

definition generateTypeScriptTypes ::
  "GraphQLScalarTypeMap \<Rightarrow> TypeDefinitionInfo js_object \<Rightarrow> GenerateOptions
     \<Rightarrow> js_error + string" where
  "generateTypeScriptTypes tm typeDefinitions options =
     (let defaultOptions = options
            \<lparr>opt_prefix := orDefault '''' (opt_prefix options),
             opt_suffix := orDefault '''' (opt_suffix options),
             useEnumType := orDefault False (useEnumType options),
             useInterfaceType := orDefault False (useInterfaceType options),
             strictNullChecks := orDefault False (strictNullChecks options)\<rparr>
      in case mapE (\<lambda>info. generateTypeDefinition tm info defaultOptions)
                (map snd typeDefinitions) of
           Inl e \<Rightarrow> Inl e
         | Inr declarations \<Rightarrow>
             Inr (join ''\<newline>'' (banner ''Type Definitions'' @ declarationLines declarations)))"

definition generateInputTypes ::
  "GraphQLScalarTypeMap \<Rightarrow> TypeDefinitionInfo js_object \<Rightarrow> GenerateOptions
     \<Rightarrow> js_error + string" where
  "generateInputTypes tm inputDefinitions options =
     (let defaultOptions = options
            \<lparr>opt_prefix := orDefault '''' (opt_prefix options),
             opt_suffix := orDefault '''' (opt_suffix options),
             strictNullChecks := orDefault False (strictNullChecks options)\<rparr>
      in case mapE (\<lambda>info. generateTypeDefinition tm info defaultOptions)
                (map snd inputDefinitions) of
           Inl e \<Rightarrow> Inl e
         | Inr declarations \<Rightarrow>
             Inr (join ''\<newline>'' (banner ''Input Types'' @ declarationLines declarations)))"

definition generateEnums :: "EnumTypeInfo js_object \<Rightarrow> GenerateOptions \<Rightarrow> string" where
  "generateEnums enumDefinitions options =
     (let defaultOptions = options\<lparr>useEnumType := orDefault False (useEnumType options)\<rparr>
      in join ''\<newline>''
           (banner ''Enum Types''
            @ declarationLines
                (map (\<lambda>info. generateEnumDeclaration info defaultOptions)
                   (map snd enumDefinitions))))"

definition generateInterfaces ::
  "GraphQLScalarTypeMap \<Rightarrow> InterfaceTypeInfo js_object \<Rightarrow> GenerateOptions
     \<Rightarrow> js_error + string" where
  "generateInterfaces tm interfaceDefinitions options =
     (let defaultOptions =
            options\<lparr>useInterfaceType := orDefault False (useInterfaceType options)\<rparr>
      in case mapE (\<lambda>info. generateInterfaceDeclaration tm info defaultOptions)
                (map snd interfaceDefinitions) of
           Inl e \<Rightarrow> Inl e
         | Inr declarations \<Rightarrow>
             Inr (join ''\<newline>'' (banner ''Interface Types'' @ declarationLines declarations)))"

definition generateUnions :: "UnionTypeInfo js_object \<Rightarrow> GenerateOptions \<Rightarrow> string" where
  "generateUnions unionDefinitions options =
     (let defaultOptions = options
      in join ''\<newline>''
           (banner ''Union Types''
            @ declarationLines
                (map (\<lambda>info. generateUnionDeclaration info defaultOptions)
                   (map snd unionDefinitions))))"

text \<open>One argument of a method signature: \<open>name: type\<close>.\<close>

definition operationArgText ::
  "GraphQLScalarTypeMap \<Rightarrow> GenerateOptions \<Rightarrow> OperationArg \<Rightarrow> js_error + string" where
  "operationArgText tm defaultOptions a =
     (case getTypeScriptType tm (oa_type a) defaultOptions of
        Inl e \<Rightarrow> Inl e
      | Inr t \<Rightarrow> Inr (oa_name a @ '': '' @ to_string t))"

text \<open>One method signature of an operations interface: the arguments first, then the return type.\<close>

definition operationFieldLine ::
  "GraphQLScalarTypeMap \<Rightarrow> GenerateOptions \<Rightarrow> OperationField \<Rightarrow> js_error + string" where
  "operationFieldLine tm defaultOptions f =
     (case mapE (operationArgText tm defaultOptions) (of_args f) of
        Inl e \<Rightarrow> Inl e
      | Inr argTexts \<Rightarrow>
          (let args = join '', '' argTexts
           in case getTypeScriptType tm (of_returnType f) defaultOptions of
                Inl e \<Rightarrow> Inl e
              | Inr returnType \<Rightarrow>
                  Inr (''  '' @ of_name f @ ''('' @ args @ ''): '' @ to_string returnType
                       @ '';'')))"

text \<open>The four lines that the loop of \<open>generateOperations\<close> pushes for one entry.\<close>

definition operationLines ::
  "GraphQLScalarTypeMap \<Rightarrow> GenerateOptions \<Rightarrow> string \<times> OperationField list
     \<Rightarrow> js_error + string list" where
  "operationLines tm defaultOptions entry =
     (let interfaceName = formatTypeName (fst entry) defaultOptions
      in case mapE (operationFieldLine tm defaultOptions) (snd entry) of
           Inl e \<Rightarrow> Inl e
         | Inr signatures \<Rightarrow>
             (let fieldLines = join ''\<newline>'' signatures
              in Inr [''export interface '' @ interfaceName @ '' {'', fieldLines, ''}'', '''']))"

definition generateOperations ::
  "GraphQLScalarTypeMap \<Rightarrow> OperationsMap \<Rightarrow> GenerateOptions \<Rightarrow> js_error + string" where
  "generateOperations tm operations options =
     (let defaultOptions = options
            \<lparr>opt_prefix := orDefault '''' (opt_prefix options),
             opt_suffix := orDefault '''' (opt_suffix options)\<rparr>
      in case mapE (operationLines tm defaultOptions) operations of
           Inl e \<Rightarrow> Inl e
         | Inr blocks \<Rightarrow> Inr (join ''\<newline>'' (banner ''Operations'' @ concat blocks)))"

section \<open>The generation orchestrator\<close>

text \<open>
  \<open>if (condition) { results.push({ filename, content: render() }) }\<close>: the renderer
  runs only when the condition holds, and its throw ends \<open>generateAll\<close>.
\<close>

definition pushIf ::
  "bool \<Rightarrow> string \<Rightarrow> js_error + string \<Rightarrow> GenerateResult list
     \<Rightarrow> js_error + GenerateResult list" where
  "pushIf c name rendered results =
     (if c
      then (case rendered of
              Inl e \<Rightarrow> Inl e
            | Inr text \<Rightarrow> Inr (results @ [\<lparr>filename = name, content = text\<rparr>]))
      else Inr results)"

definition hasOperations :: "OperationsMap \<Rightarrow> bool" where
  "hasOperations operations =
     list_ex (\<lambda>key. case map_of operations key of
                      None \<Rightarrow> False
                    | Some fs \<Rightarrow> length fs > 0)
       (map fst operations)"

definition generateAll ::
  "GraphQLScalarTypeMap \<Rightarrow> DocumentNode \<Rightarrow> GenerateOptions
     \<Rightarrow> js_error + GenerateResult list" where
  "generateAll tm document options =
     (let extendedTypes = parseExtendedTypes tm document;
          operations = parseOperations tm document
      in bindE (pushIf (length (map fst (objects extendedTypes)) > 0) ''types.ts''
                  (generateTypeScriptTypes tm (objects extendedTypes) options) [])
        (\<lambda>results1.
         bindE (pushIf (length (map fst (inputs extendedTypes)) > 0) ''inputs.ts''
                  (generateInputTypes tm (inputs extendedTypes) options) results1)
        (\<lambda>results2.
         bindE (pushIf (length (map fst (enums extendedTypes)) > 0) ''enums.ts''
                  (Inr (generateEnums (enums extendedTypes) options)) results2)
        (\<lambda>results3.
         bindE (pushIf (length (map fst (interfaces extendedTypes)) > 0) ''interfaces.ts''
                  (generateInterfaces tm (interfaces extendedTypes) options) results3)
        (\<lambda>results4.
         bindE (pushIf (length (map fst (unions extendedTypes)) > 0) ''unions.ts''
                  (Inr (generateUnions (unions extendedTypes) options)) results4)
        (\<lambda>results5.
         pushIf (hasOperations operations) ''operations.ts''
           (generateOperations tm operations options) results5))))))"

section \<open>The registry as shared mutable state\<close>










section \<open>Loading the document\<close>

text \<open>
  The file system and the grammar parser are external: \<open>existsSync\<close>, \<open>readFileSync\<close> and
  \<open>parse\<close> are parameters. A thrown value is a \<open>GraphQLParseError\<close> (message, cause), another
  \<open>Error\<close> instance (what the file system and the grammar parser throw: a system error,
  the parser's syntax error), or a value that is not an \<open>Error\<close>. The calls made to the
  outside are returned as a trace beside the outcome, \<open>Inl\<close> being the value thrown to the
  caller of \<open>parseGraphqlDocument\<close>.
\<close>

datatype js_thrown =
    GraphQLParseError string "js_thrown option"
  | OtherError string
  | NotAnError string

datatype io_event = ExistsSync string | ReadFileSync string | Parse string

text \<open>The \<open>catch\<close> clause of \<open>parseGraphqlDocument\<close>: the value it throws.\<close>

fun catch_clause :: "string \<Rightarrow> js_thrown \<Rightarrow> js_thrown" where
  "catch_clause schemaFile (GraphQLParseError m c) = GraphQLParseError m c"
| "catch_clause schemaFile (OtherError m) =
     GraphQLParseError (''Failed to parse schema file: '' @ schemaFile) (Some (OtherError m))"
| "catch_clause schemaFile (NotAnError v) =
     GraphQLParseError (''Failed to parse schema file: '' @ schemaFile) None"

definition parseGraphqlDocument ::
  "(string \<Rightarrow> bool) \<Rightarrow> (string \<Rightarrow> js_thrown + string) \<Rightarrow> (string \<Rightarrow> js_thrown + DocumentNode)
     \<Rightarrow> string \<Rightarrow> io_event list \<times> (js_thrown + DocumentNode)" where
  "parseGraphqlDocument existsSync readFileSync parse schemaFile =
     (if \<not> existsSync schemaFile
      then ([ExistsSync schemaFile],
            Inl (GraphQLParseError (''Schema file not found: '' @ schemaFile) None))
      else (case readFileSync schemaFile of
              Inl error \<Rightarrow>
                ([ExistsSync schemaFile, ReadFileSync schemaFile],
                 Inl (catch_clause schemaFile error))
            | Inr source \<Rightarrow>
                (case parse source of
                   Inl error \<Rightarrow>
                     ([ExistsSync schemaFile, ReadFileSync schemaFile, Parse source],
                      Inl (catch_clause schemaFile error))
                 | Inr document \<Rightarrow>
                     ([ExistsSync schemaFile, ReadFileSync schemaFile, Parse source],
                      Inr document))))"

fun is_Parse :: "io_event \<Rightarrow> bool" where
  "is_Parse (Parse s) = True"
| "is_Parse e = False"

definition parse_attempts :: "io_event list \<times> (js_thrown + DocumentNode) \<Rightarrow> nat" where
  "parse_attempts run = length (filter is_Parse (fst run))"

section \<open>Vocabulary for the classifier and the extractor\<close>

datatype Bucket = Objects | Inputs | Scalars | Enums | Interfaces | Unions

datatype Entry =
    TypeEntry TypeDefinitionInfo
  | EnumEntry EnumTypeInfo
  | InterfaceEntry InterfaceTypeInfo
  | UnionEntry UnionTypeInfo

text \<open>The entries of one bucket of an Extended Type Map, in the order of \<open>Object.entries\<close>.\<close>

fun bucketEntries :: "ExtendedTypeMap \<Rightarrow> Bucket \<Rightarrow> (string \<times> Entry) list" where
  "bucketEntries m Objects = map (\<lambda>p. (fst p, TypeEntry (snd p))) (objects m)"
| "bucketEntries m Inputs = map (\<lambda>p. (fst p, TypeEntry (snd p))) (inputs m)"
| "bucketEntries m Scalars = map (\<lambda>p. (fst p, TypeEntry (snd p))) (scalars m)"
| "bucketEntries m Enums = map (\<lambda>p. (fst p, EnumEntry (snd p))) (enums m)"
| "bucketEntries m Interfaces = map (\<lambda>p. (fst p, InterfaceEntry (snd p))) (interfaces m)"
| "bucketEntries m Unions = map (\<lambda>p. (fst p, UnionEntry (snd p))) (unions m)"

text \<open>
  A definition of a recognised kind: the bucket of its kind, its name, and the entry
  that describes it. \<open>None\<close> for a definition of any other kind.
\<close>

fun definitionEntry ::
  "GraphQLScalarTypeMap \<Rightarrow> DefinitionNode \<Rightarrow> (Bucket \<times> string \<times> Entry) option" where
  "definitionEntry tm (ObjectTypeDefinition n d fs) =
     Some (Objects, n, TypeEntry (objectInfo tm n d fs))"
| "definitionEntry tm (InputObjectTypeDefinition n d fs) =
     Some (Inputs, n, TypeEntry (inputInfo tm n d fs))"
| "definitionEntry tm (ScalarTypeDefinition n d) =
     Some (Scalars, n, TypeEntry (scalarInfo n d))"
| "definitionEntry tm (EnumTypeDefinition n d vs) =
     Some (Enums, n, EnumEntry (enumInfo n d vs))"
| "definitionEntry tm (InterfaceTypeDefinition n d fs) =
     Some (Interfaces, n, InterfaceEntry (interfaceInfo tm n d fs))"
| "definitionEntry tm (UnionTypeDefinition n d ts) =
     Some (Unions, n, UnionEntry (unionInfo n d ts))"
| "definitionEntry tm (OtherDefinition k) = None"

text \<open>The bucket that the kind tag of an entry names.\<close>

fun entryBucket :: "Entry \<Rightarrow> Bucket" where
  "entryBucket (TypeEntry i) =
     (case td_kind i of
        INPUT_OBJECT_TYPE_DEFINITION \<Rightarrow> Inputs
      | SCALAR_TYPE_DEFINITION \<Rightarrow> Scalars
      | _ \<Rightarrow> Objects)"
| "entryBucket (EnumEntry i) = Enums"
| "entryBucket (InterfaceEntry i) = Interfaces"
| "entryBucket (UnionEntry i) = Unions"

definition recognised :: "DefinitionNode \<Rightarrow> bool" where
  "recognised d = (case d of OtherDefinition k \<Rightarrow> False | _ \<Rightarrow> True)"

text \<open>The definition \<open>d\<close> appears in bucket \<open>b\<close> of the map \<open>m\<close>: under its name, with its entry.\<close>

definition inBucket ::
  "GraphQLScalarTypeMap \<Rightarrow> ExtendedTypeMap \<Rightarrow> Bucket \<Rightarrow> DefinitionNode \<Rightarrow> bool" where
  "inBucket tm m b d =
     (case definitionEntry tm d of
        None \<Rightarrow> False
      | Some (b', n, e) \<Rightarrow> (n, e) \<in> set (bucketEntries m b))"

text \<open>Kind and name of every recognised definition of a document, in document order.\<close>

fun kindName :: "DefinitionNode \<Rightarrow> (Bucket \<times> string) list" where
  "kindName (ObjectTypeDefinition n d fs) = [(Objects, n)]"
| "kindName (InputObjectTypeDefinition n d fs) = [(Inputs, n)]"
| "kindName (ScalarTypeDefinition n d) = [(Scalars, n)]"
| "kindName (EnumTypeDefinition n d vs) = [(Enums, n)]"
| "kindName (InterfaceTypeDefinition n d fs) = [(Interfaces, n)]"
| "kindName (UnionTypeDefinition n d ts) = [(Unions, n)]"
| "kindName (OtherDefinition k) = []"

definition kindNames :: "DocumentNode \<Rightarrow> (Bucket \<times> string) list" where
  "kindNames document = concat (map kindName document)"

text \<open>The entries that the definitions of a document contribute to bucket \<open>b\<close>, in document order.\<close>

definition entriesFor ::
  "GraphQLScalarTypeMap \<Rightarrow> Bucket \<Rightarrow> DocumentNode \<Rightarrow> (string \<times> Entry) list" where
  "entriesFor tm b document =
     concat (map (\<lambda>d. case definitionEntry tm d of
                         None \<Rightarrow> []
                       | Some (b', n, e) \<Rightarrow> if b' = b then [(n, e)] else []) document)"

text \<open>The operation fields that one definition contributes to the root named \<open>k\<close>.\<close>

fun rootContribution ::
  "GraphQLScalarTypeMap \<Rightarrow> string \<Rightarrow> DefinitionNode \<Rightarrow> OperationField list" where
  "rootContribution tm k (ObjectTypeDefinition n d fs) =
     (if n = k then map (operationField tm) (case fs of None \<Rightarrow> [] | Some fl \<Rightarrow> fl) else [])"
| "rootContribution tm k other = []"

definition isRootDefinition :: "DefinitionNode \<Rightarrow> bool" where
  "isRootDefinition d =
     (case d of
        ObjectTypeDefinition n dsc fs \<Rightarrow> n = ''Query'' \<or> n = ''Mutation'' \<or> n = ''Subscription''
      | _ \<Rightarrow> False)"

text \<open>\<open>operations[k]\<close>, with the empty sequence for a key that is not there.\<close>

definition rootFields :: "OperationsMap \<Rightarrow> string \<Rightarrow> OperationField list" where
  "rootFields operations k = (case map_of operations k of None \<Rightarrow> [] | Some fs \<Rightarrow> fs)"

definition rootsEmpty :: "OperationsMap \<Rightarrow> bool" where
  "rootsEmpty operations =
     (rootFields operations ''Query'' = [] \<and> rootFields operations ''Mutation'' = []
      \<and> rootFields operations ''Subscription'' = [])"

text \<open>An interface declaration as the array elements that \<open>generateOperations\<close> pushes.\<close>

definition interfaceBlock :: "string \<Rightarrow> string \<Rightarrow> string list" where
  "interfaceBlock name body = [''export interface '' @ name @ '' {'', body, ''}'', '''']"

text \<open>
  The type references of a definition that the classifier and the extractor flatten:
  those of the fields and of the arguments of object, input and interface definitions.
\<close>

fun fieldTypes :: "FieldDefinitionNode \<Rightarrow> TypeNode list" where
  "fieldTypes f =
     fd_type f # map iv_type (case fd_arguments f of None \<Rightarrow> [] | Some as \<Rightarrow> as)"

fun definitionTypes :: "DefinitionNode \<Rightarrow> TypeNode list" where
  "definitionTypes (ObjectTypeDefinition n d fs) =
     concat (map fieldTypes (case fs of None \<Rightarrow> [] | Some fl \<Rightarrow> fl))"
| "definitionTypes (InputObjectTypeDefinition n d fs) =
     map iv_type (case fs of None \<Rightarrow> [] | Some fl \<Rightarrow> fl)"
| "definitionTypes (InterfaceTypeDefinition n d fs) =
     concat (map fieldTypes (case fs of None \<Rightarrow> [] | Some fl \<Rightarrow> fl))"
| "definitionTypes other = []"

text \<open>Every type reference of the document flattens to a string.\<close>

definition stringTyped :: "GraphQLScalarTypeMap \<Rightarrow> DocumentNode \<Rightarrow> bool" where
  "stringTyped tm document =
     list_all (\<lambda>d. list_all (\<lambda>t. is_Str (getTypeName tm t)) (definitionTypes d)) document"

definition noOptions :: GenerateOptions where
  "noOptions =
     \<lparr>opt_prefix = None, opt_suffix = None, useEnumType = None, useInterfaceType = None,
      outputDir = None, strictNullChecks = None\<rparr>"

section \<open>Example documents and environments\<close>

text \<open>\<open>type A { tags: [String!]! }\<close>\<close>

definition docD :: DocumentNode where
  "docD =
     [ObjectTypeDefinition ''A'' None
        (Some [\<lparr>fd_name = ''tags'', fd_arguments = Some [],
                fd_type = NonNullType (ListType (NonNullType (NamedType ''String''))),
                fd_description = None\<rparr>])]"

text \<open>\<open>interface N { id: ID! }  input F { q: String }\<close>\<close>

definition docNF :: DocumentNode where
  "docNF =
     [InterfaceTypeDefinition ''N'' None
        (Some [\<lparr>fd_name = ''id'', fd_arguments = Some [],
                fd_type = NonNullType (NamedType ''ID''), fd_description = None\<rparr>]),
      InputObjectTypeDefinition ''F'' None
        (Some [\<lparr>iv_name = ''q'', iv_type = NamedType ''String'', iv_description = None\<rparr>])]"

text \<open>\<open>type User { id: ID! }\<close>\<close>

definition docUser :: DocumentNode where
  "docUser =
     [ObjectTypeDefinition ''User'' None
        (Some [\<lparr>fd_name = ''id'', fd_arguments = Some [],
                fd_type = NonNullType (NamedType ''ID''), fd_description = None\<rparr>])]"

text \<open>\<open>type Query { getUser(id: ID!): User }\<close>\<close>

definition docC :: DocumentNode where
  "docC =
     [ObjectTypeDefinition ''Query'' None
        (Some [\<lparr>fd_name = ''getUser'',
                fd_arguments = Some [\<lparr>iv_name = ''id'', iv_type = NonNullType (NamedType ''ID''),
                                       iv_description = None\<rparr>],
                fd_type = NamedType ''User'', fd_description = None\<rparr>])]"

text \<open>\<open>type Query\<close>: an object type definition without a field block.\<close>

definition docQ :: DocumentNode where
  "docQ = [ObjectTypeDefinition ''Query'' None (Some [])]"

text \<open>\<open>type Query { a: Int }  type Query { b: Int }\<close>\<close>

definition docQQ :: DocumentNode where
  "docQQ =
     [ObjectTypeDefinition ''Query'' None
        (Some [\<lparr>fd_name = ''a'', fd_arguments = Some [], fd_type = NamedType ''Int'',
                fd_description = None\<rparr>]),
      ObjectTypeDefinition ''Query'' None
        (Some [\<lparr>fd_name = ''b'', fd_arguments = Some [], fd_type = NamedType ''Int'',
                fd_description = None\<rparr>])]"

text \<open>\<open>type Query { f: toString }\<close>: the field type is the name of a member of \<open>Object.prototype\<close>.\<close>

definition docToString :: DocumentNode where
  "docToString =
     [ObjectTypeDefinition ''Query'' None
        (Some [\<lparr>fd_name = ''f'', fd_arguments = Some [], fd_type = NamedType ''toString'',
                fd_description = None\<rparr>])]"

text \<open>\<open>type A  schema { query: A }  enum A { X }\<close>\<close>

definition docW :: DocumentNode where
  "docW = [ObjectTypeDefinition ''A'' None (Some []), OtherDefinition SCHEMA_DEFINITION,
           EnumTypeDefinition ''A'' None (Some [''X''])]"

text \<open>\<open>type A { x: Int }  type A { y: Int }\<close>\<close>

definition docDup :: DocumentNode where
  "docDup =
     [ObjectTypeDefinition ''A'' None
        (Some [\<lparr>fd_name = ''x'', fd_arguments = Some [], fd_type = NamedType ''Int'',
                fd_description = None\<rparr>]),
      ObjectTypeDefinition ''A'' None
        (Some [\<lparr>fd_name = ''y'', fd_arguments = Some [], fd_type = NamedType ''Int'',
                fd_description = None\<rparr>])]"

text \<open>\<open>type __proto__ { x: Int }\<close>\<close>

definition docProto :: DocumentNode where
  "docProto =
     [ObjectTypeDefinition ''__proto__'' None
        (Some [\<lparr>fd_name = ''x'', fd_arguments = Some [], fd_type = NamedType ''Int'',
                fd_description = None\<rparr>])]"

text \<open>
  A file system that holds the one file \<open>schema.graphql\<close>, and two parsers: one that
  rejects every source with a syntax error and one that accepts every source as the
  document \<open>docC\<close>.
\<close>

definition oneFile_exists :: "string \<Rightarrow> bool" where
  "oneFile_exists path = (path = ''schema.graphql'')"

definition oneFile_read :: "string \<Rightarrow> js_thrown + string" where
  "oneFile_read path =
     (if path = ''schema.graphql'' then Inr ''type Query { getUser(id: ID!): User }''
      else Inl (OtherError ''ENOENT''))"

definition rejecting_parse :: "string \<Rightarrow> js_thrown + DocumentNode" where
  "rejecting_parse source = Inl (OtherError ''Syntax Error'')"

definition accepting_parse :: "string \<Rightarrow> js_thrown + DocumentNode" where
  "accepting_parse source = Inr docC"

section \<open>Vocabulary for the shape of a type reference\<close>

fun baseName :: "TypeNode \<Rightarrow> string" where
  "baseName (NamedType n) = n"
| "baseName (ListType t) = baseName t"
| "baseName (NonNullType t) = baseName t"

fun listWrappers :: "TypeNode \<Rightarrow> nat" where
  "listWrappers (NamedType n) = 0"
| "listWrappers (ListType t) = Suc (listWrappers t)"
| "listWrappers (NonNullType t) = listWrappers t"

fun dropNonNull :: "TypeNode \<Rightarrow> TypeNode" where
  "dropNonNull (NamedType n) = NamedType n"
| "dropNonNull (ListType t) = ListType (dropNonNull t)"
| "dropNonNull (NonNullType t) = dropNonNull t"

definition brackets :: "nat \<Rightarrow> string" where
  "brackets n = concat (replicate n ''[]'')"

section \<open>Properties of the object operations\<close>

lemma set_js_insert_index: "set (js_insert_index i k v ps) = insert (k, v) (set ps)"
  by (induction ps) (auto split: option.splits)

lemma length_js_insert_index: "length (js_insert_index i k v ps) = Suc (length ps)"
  by (induction ps) (auto split: option.splits)

lemma map_of_js_insert_index:
  "k \<notin> fst ` set ps \<Longrightarrow> map_of (js_insert_index i k v ps) = (map_of ps)(k \<mapsto> v)"
proof (induction ps)
  case Nil
  show ?case by simp
next
  case (Cons p ps)
  then have ne: "fst p \<noteq> k" and rest: "k \<notin> fst ` set ps" by auto
  obtain a b where p: "p = (a, b)" by (cases p)
  from ne p have "a \<noteq> k" by simp
  then show ?case
    using Cons.IH[OF rest] unfolding p
    by (auto simp: fun_eq_iff split: option.splits)
qed

lemma distinct_js_insert_index:
  "distinct (map fst ps) \<Longrightarrow> k \<notin> fst ` set ps \<Longrightarrow> distinct (map fst (js_insert_index i k v ps))"
proof (induction ps)
  case Nil
  show ?case by simp
next
  case (Cons p ps)
  have keys: "fst ` set (js_insert_index i k v ps) = insert k (fst ` set ps)"
    by (simp add: set_js_insert_index)
  from Cons show ?case
    by (auto simp: keys split: option.splits)
qed

lemma js_insert_index_map:
  "map (\<lambda>p. (fst p, f (snd p))) (js_insert_index i k v ps)
   = js_insert_index i k (f v) (map (\<lambda>p. (fst p, f (snd p))) ps)"
  by (induction ps) (auto split: option.splits)

lemma map_of_replace:
  "map_of (map (\<lambda>p. if fst p = k then (k, v) else p) ps) x
   = (if x = k \<and> k \<in> fst ` set ps then Some v else map_of ps x)"
proof (induction ps)
  case Nil
  show ?case by simp
next
  case (Cons p ps)
  obtain a b where p: "p = (a, b)" by (cases p)
  show ?case
  proof (cases "x = k")
    case True
    show ?thesis
    proof (cases "a = k")
      case True
      with \<open>x = k\<close> show ?thesis unfolding p by simp
    next
      case False
      with \<open>x = k\<close> Cons.IH show ?thesis unfolding p by simp
    qed
  next
    case False
    with Cons.IH show ?thesis unfolding p by simp
  qed
qed

lemma map_of_js_set:
  "map_of (js_set k v ps)
   = (if k \<in> fst ` set ps \<or> k \<noteq> ''__proto__'' then (map_of ps)(k \<mapsto> v) else map_of ps)"
proof (cases "k \<in> fst ` set ps")
  case True
  then show ?thesis
    by (auto simp: js_set_def map_of_replace fun_eq_iff)
next
  case False
  then have "map_of (ps @ [(k, v)]) = (map_of ps)(k \<mapsto> v)"
    by (simp add: map_add_upd_left dom_map_of_conv_image_fst)
  with False show ?thesis
    by (auto simp: js_set_def map_of_js_insert_index simp del: map_of_append split: option.splits)
qed

lemma keys_js_set:
  "fst ` set (js_set k v ps)
   = (if k \<in> fst ` set ps \<or> k \<noteq> ''__proto__'' then insert k (fst ` set ps) else fst ` set ps)"
proof -
  have "fst ` set (js_set k v ps) = dom (map_of (js_set k v ps))"
    by (simp add: dom_map_of_conv_image_fst)
  also have "\<dots> = (if k \<in> fst ` set ps \<or> k \<noteq> ''__proto__''
                      then insert k (dom (map_of ps)) else dom (map_of ps))"
    by (auto simp: map_of_js_set dom_map_of_conv_image_fst)
  finally show ?thesis by (auto simp: dom_map_of_conv_image_fst)
qed

lemma set_js_set_new:
  "k \<notin> fst ` set ps \<Longrightarrow> k \<noteq> ''__proto__'' \<Longrightarrow> set (js_set k v ps) = insert (k, v) (set ps)"
  by (auto simp: js_set_def set_js_insert_index split: option.splits)

lemma length_js_set_new:
  "k \<notin> fst ` set ps \<Longrightarrow> k \<noteq> ''__proto__'' \<Longrightarrow> length (js_set k v ps) = Suc (length ps)"
  by (auto simp: js_set_def length_js_insert_index split: option.splits)

lemma set_js_set_subset: "set (js_set k v ps) \<subseteq> insert (k, v) (set ps)"
  by (auto simp: js_set_def set_js_insert_index split: option.splits if_splits)

lemma distinct_js_set:
  "distinct (map fst ps) \<Longrightarrow> distinct (map fst (js_set k v ps))"
proof (cases "k \<in> fst ` set ps")
  case True
  have same: "map fst (map (\<lambda>p. if fst p = k then (k, v) else p) ps) = map fst ps"
    by (induction ps) auto
  from True have "js_set k v ps = map (\<lambda>p. if fst p = k then (k, v) else p) ps"
    by (simp add: js_set_def)
  then show "distinct (map fst ps) \<Longrightarrow> ?thesis"
    by (simp only: same)
next
  case False
  then show "distinct (map fst ps) \<Longrightarrow> ?thesis"
    by (auto simp: js_set_def distinct_js_insert_index split: option.splits)
qed

lemma js_set_map:
  "map (\<lambda>p. (fst p, f (snd p))) (js_set k v ps)
   = js_set k (f v) (map (\<lambda>p. (fst p, f (snd p))) ps)"
proof -
  let ?g = "\<lambda>p. (fst p, f (snd p))"
  have keys: "set (map fst (map ?g ps)) = set (map fst ps)"
    by force
  have repl: "map ?g (map (\<lambda>p. if fst p = k then (k, v) else p) ps)
        = map (\<lambda>p. if fst p = k then (k, f v) else p) (map ?g ps)"
    by (induction ps) auto
  show ?thesis
  proof (cases "k \<in> set (map fst ps)")
    case True
    then have "js_set k v ps = map (\<lambda>p. if fst p = k then (k, v) else p) ps"
      and "js_set k (f v) (map ?g ps) = map (\<lambda>p. if fst p = k then (k, f v) else p) (map ?g ps)"
      unfolding js_set_def keys by simp_all
    then show ?thesis by (simp only: repl)
  next
    case False
    then have l: "js_set k v ps = (if k = ''__proto__'' then ps
                 else (case array_index k of None \<Rightarrow> ps @ [(k, v)]
                       | Some i \<Rightarrow> js_insert_index i k v ps))"
      and r: "js_set k (f v) (map ?g ps) = (if k = ''__proto__'' then map ?g ps
                 else (case array_index k of None \<Rightarrow> map ?g ps @ [(k, f v)]
                       | Some i \<Rightarrow> js_insert_index i k (f v) (map ?g ps)))"
      unfolding js_set_def keys by simp_all
    show ?thesis
      unfolding l r by (simp add: js_insert_index_map split: option.splits)
  qed
qed

lemma object_assign_append: "object_assign (object_assign xs ys) zs = object_assign xs (ys @ zs)"
  by (induction ys arbitrary: xs) auto

lemma set_object_assign_subset: "set (object_assign xs ys) \<subseteq> set xs \<union> set ys"
proof (induction ys arbitrary: xs)
  case Nil
  show ?case by simp
next
  case (Cons p ys)
  obtain k v where p: "p = (k, v)" by (cases p)
  have "set (object_assign (js_set k v xs) ys) \<subseteq> set (js_set k v xs) \<union> set ys"
    by (rule Cons.IH)
  also have "\<dots> \<subseteq> insert (k, v) (set xs) \<union> set ys"
    using set_js_set_subset[of k v xs] by blast
  finally show ?case unfolding p by auto
qed

lemma object_assign_fresh:
  assumes "distinct (map fst ys)" and "''__proto__'' \<notin> fst ` set ys"
      and "fst ` set xs \<inter> fst ` set ys = {}"
  shows "set (object_assign xs ys) = set xs \<union> set ys
       \<and> length (object_assign xs ys) = length xs + length ys
       \<and> (distinct (map fst xs) \<longrightarrow> distinct (map fst (object_assign xs ys)))"
  using assms
proof (induction ys arbitrary: xs)
  case Nil
  show ?case by simp
next
  case (Cons p ys)
  obtain k v where p: "p = (k, v)" by (cases p)
  from Cons.prems p have fresh: "k \<notin> fst ` set xs" and np: "k \<noteq> ''__proto__''"
    and dy: "distinct (map fst ys)" and py: "''__proto__'' \<notin> fst ` set ys"
    and ky: "k \<notin> fst ` set ys" and disj: "fst ` set xs \<inter> fst ` set ys = {}"
    by auto
  have keys: "fst ` set (js_set k v xs) = insert k (fst ` set xs)"
    using np by (simp add: keys_js_set)
  have "fst ` set (js_set k v xs) \<inter> fst ` set ys = {}"
    using disj ky unfolding keys by auto
  from Cons.IH[OF dy py this]
  have IH: "set (object_assign (js_set k v xs) ys) = set (js_set k v xs) \<union> set ys"
    "length (object_assign (js_set k v xs) ys) = length (js_set k v xs) + length ys"
    "distinct (map fst (js_set k v xs)) \<longrightarrow> distinct (map fst (object_assign (js_set k v xs) ys))"
    by auto
  show ?case
    unfolding p using IH distinct_js_set[of xs k v]
    by (auto simp: set_js_set_new[OF fresh np] length_js_set_new[OF fresh np])
qed

lemma map_of_object_assign:
  "map_of (object_assign xs ys) k
   = (if k = ''__proto__'' \<and> ''__proto__'' \<notin> fst ` set xs then None
      else (map_of xs ++ map_of (rev ys)) k)"
proof (induction ys arbitrary: xs)
  case Nil
  show ?case by (auto simp: map_of_eq_None_iff)
next
  case (Cons p ys)
  obtain k' v' where p: "p = (k', v')" by (cases p)
  show ?case
    unfolding p
    by (simp add: Cons.IH keys_js_set map_of_js_set map_add_def split: option.splits)
       (auto simp: map_of_eq_None_iff)
qed

lemma keys_object_assign:
  "''__proto__'' \<notin> fst ` set xs \<Longrightarrow>
   fst ` set (object_assign xs ys) = fst ` set xs \<union> (fst ` set ys - {''__proto__''})"
proof (induction ys arbitrary: xs)
  case Nil
  show ?case by simp
next
  case (Cons p ys)
  obtain k v where p: "p = (k, v)" by (cases p)
  have "''__proto__'' \<notin> fst ` set (js_set k v xs)"
    using Cons.prems by (auto simp: keys_js_set)
  from Cons.IH[OF this] show ?case
    unfolding p using Cons.prems by (auto simp: keys_js_set)
qed

section \<open>Properties of the type-name resolver\<close>

lemma brackets_Suc: "brackets (Suc n) = brackets n @ ''[]''"
  unfolding brackets_def by (induction n) simp_all

lemma to_string_Str: "to_string (Str s) = s"
  by (simp add: to_string_def)

lemma baseName_dropNonNull: "baseName (dropNonNull t) = baseName t"
  by (induction t) simp_all

lemma listWrappers_dropNonNull: "listWrappers (dropNonNull t) = listWrappers t"
  by (induction t) simp_all

lemma js_get_own:
  "k \<in> fst ` set tm \<or> k \<notin> set objectPrototypeKeys \<Longrightarrow>
   js_get tm k = (case map_of tm k of Some v \<Rightarrow> map_option Str v | None \<Rightarrow> None)"
  by (auto simp: js_get_def map_of_eq_None_iff split: option.splits)

lemma getTypeName_named:
  assumes "n \<in> fst ` set tm \<or> n \<notin> set objectPrototypeKeys"
  shows "getTypeName tm (NamedType n)
         = Str (case map_of tm n of
                  Some (Some mapped) \<Rightarrow> if mapped = '''' then n else mapped
                | _ \<Rightarrow> n)"
  by (simp add: js_get_own[OF assms] split: option.splits)

lemma getTypeName_string:
  assumes "baseName t \<in> fst ` set tm \<or> baseName t \<notin> set objectPrototypeKeys"
  shows "getTypeName tm t
         = Str ((case map_of tm (baseName t) of
                   Some (Some mapped) \<Rightarrow> if mapped = '''' then baseName t else mapped
                 | _ \<Rightarrow> baseName t)
                @ brackets (listWrappers t))"
  using assms
proof (induction t)
  case (NamedType n)
  then show ?case by (simp only: getTypeName_named baseName.simps listWrappers.simps)
      (simp add: brackets_def)
next
  case (ListType t)
  then show ?case by (simp add: brackets_Suc to_string_Str split: option.splits)
next
  case (NonNullType t)
  then show ?case by (simp add: to_string_Str split: option.splits)
qed

text \<open>
  C1, as stated, at the registry after \<open>updateScalarTypeMap({X: ''})\<close>: the entry of
  \<open>X\<close> exists and is the empty string, yet the resolver returns \<open>X\<close>, not the entry.
\<close>

theorem C1_empty_entry_counterexample:
  "map_of (updateScalarTypeMap [(''X'', Some '''')] typeMap) ''X'' = Some (Some '''')
   \<and> getTypeName (updateScalarTypeMap [(''X'', Some '''')] typeMap) (NamedType ''X'') = Str ''X''
   \<and> getTypeName (updateScalarTypeMap [(''X'', Some '''')] typeMap) (NamedType ''X'')
       \<noteq> Str ('''' @ brackets (listWrappers (NamedType ''X'')))"
  by code_simp

text \<open>
  The read \<open>typeMap[typeName]\<close> looks through \<open>Object.prototype\<close>. For a base name that is a
  member of it and has no entry of its own, a bare reference resolves to the inherited
  member, which is not a string, and a wrapped one to the text of that member.
\<close>

lemma getTypeName_inherited_member:
  "getTypeName typeMap (NamedType ''constructor'') = Inherited ''constructor''
   \<and> getTypeName typeMap (ListType (NamedType ''constructor''))
       = Str ''function Object() { [native code] }[]''
   \<and> getTypeName typeMap (NonNullType (NamedType ''__proto__'')) = Str ''[object Object]''"
  by code_simp

text \<open>
  C1 (amended): for every type reference whose base name has an entry of its own in the
  registry or is not the name of a member of \<open>Object.prototype\<close>, \<open>getTypeName\<close> returns
  the base name, replaced by its registry entry when one exists and is a string other
  than the empty one and verbatim otherwise, followed by exactly one \<open>[]\<close> per list
  wrapper; removing every non-null wrapper from the reference does not change the
  result.
\<close>

theorem C1_getTypeName_shape:
  assumes "baseName t \<in> fst ` set tm \<or> baseName t \<notin> set objectPrototypeKeys"
  shows "getTypeName tm t
         = Str ((case map_of tm (baseName t) of
                   Some (Some mapped) \<Rightarrow> if mapped = '''' then baseName t else mapped
                 | _ \<Rightarrow> baseName t)
                @ brackets (listWrappers t))
       \<and> getTypeName tm (dropNonNull t) = getTypeName tm t"
proof -
  have "baseName (dropNonNull t) \<in> fst ` set tm
        \<or> baseName (dropNonNull t) \<notin> set objectPrototypeKeys"
    using assms by (simp only: baseName_dropNonNull)
  from getTypeName_string[OF this] getTypeName_string[OF assms]
  show ?thesis
    by (simp only: baseName_dropNonNull listWrappers_dropNonNull simp_thms)
qed

text \<open>
  Witness for C1 at \<open>[String!]!\<close> and at \<open>[[Thing]]\<close> under the initial registry.
\<close>

theorem C1_getTypeName_shape_witness:
  "getTypeName typeMap (NonNullType (ListType (NonNullType (NamedType ''String'')))) = Str ''string[]''
   \<and> getTypeName typeMap (ListType (NamedType ''String'')) = Str ''string[]''
   \<and> getTypeName typeMap (ListType (ListType (NamedType ''Thing''))) = Str ''Thing[][]''"
proof -
  have h1: "baseName (NonNullType (ListType (NonNullType (NamedType ''String'')))) \<in> fst ` set typeMap
            \<or> baseName (NonNullType (ListType (NonNullType (NamedType ''String''))))
               \<notin> set objectPrototypeKeys"
    by (simp add: typeMap_def)
  have h2: "baseName (ListType (ListType (NamedType ''Thing''))) \<in> fst ` set typeMap
            \<or> baseName (ListType (ListType (NamedType ''Thing''))) \<notin> set objectPrototypeKeys"
    by (simp add: objectPrototypeKeys_def)
  have d: "dropNonNull (NonNullType (ListType (NonNullType (NamedType ''String''))))
           = ListType (NamedType ''String'')"
    by simp
  from C1_getTypeName_shape[OF h1] C1_getTypeName_shape[OF h2]
  show ?thesis
    unfolding d by (simp add: typeMap_def brackets_def)
qed

section \<open>Properties of the operation extractor\<close>

lemma push_Query:
  "fold (\<lambda>field ops. js_push ''Query'' (g field) ops) fl
     [(''Query'', a), (''Mutation'', b), (''Subscription'', c)]
   = [(''Query'', a @ map g fl), (''Mutation'', b), (''Subscription'', c)]"
  by (induction fl arbitrary: a) simp_all

lemma push_Mutation:
  "fold (\<lambda>field ops. js_push ''Mutation'' (g field) ops) fl
     [(''Query'', a), (''Mutation'', b), (''Subscription'', c)]
   = [(''Query'', a), (''Mutation'', b @ map g fl), (''Subscription'', c)]"
  by (induction fl arbitrary: b) simp_all

lemma push_Subscription:
  "fold (\<lambda>field ops. js_push ''Subscription'' (g field) ops) fl
     [(''Query'', a), (''Mutation'', b), (''Subscription'', c)]
   = [(''Query'', a), (''Mutation'', b), (''Subscription'', c @ map g fl)]"
  by (induction fl arbitrary: c) simp_all

lemma parseOperations_body_step:
  "parseOperations_body tm d [(''Query'', a), (''Mutation'', b), (''Subscription'', c)]
   = [(''Query'', a @ rootContribution tm ''Query'' d),
      (''Mutation'', b @ rootContribution tm ''Mutation'' d),
      (''Subscription'', c @ rootContribution tm ''Subscription'' d)]"
proof (cases d)
  case (ObjectTypeDefinition n dsc fs)
  consider (q) "n = ''Query''" | (m) "n = ''Mutation''" | (s) "n = ''Subscription''"
    | (other) "n \<noteq> ''Query''" "n \<noteq> ''Mutation''" "n \<noteq> ''Subscription''"
    by blast
  then show ?thesis
  proof cases
    case q
    show ?thesis unfolding ObjectTypeDefinition q
      by (simp add: operationTypes_def push_Query)
  next
    case m
    show ?thesis unfolding ObjectTypeDefinition m
      by (simp add: operationTypes_def push_Mutation)
  next
    case s
    show ?thesis unfolding ObjectTypeDefinition s
      by (simp add: operationTypes_def push_Subscription)
  next
    case other
    then show ?thesis unfolding ObjectTypeDefinition
      by (simp add: operationTypes_def)
  qed
qed simp_all

lemma parseOperations_fold:
  "fold (parseOperations_body tm) doc [(''Query'', a), (''Mutation'', b), (''Subscription'', c)]
   = [(''Query'', a @ concat (map (rootContribution tm ''Query'') doc)),
      (''Mutation'', b @ concat (map (rootContribution tm ''Mutation'') doc)),
      (''Subscription'', c @ concat (map (rootContribution tm ''Subscription'') doc))]"
  by (induction doc arbitrary: a b c) (simp_all add: parseOperations_body_step)

lemma parseOperations_eq:
  "parseOperations tm doc
   = [(''Query'', concat (map (rootContribution tm ''Query'') doc)),
      (''Mutation'', concat (map (rootContribution tm ''Mutation'') doc)),
      (''Subscription'', concat (map (rootContribution tm ''Subscription'') doc))]"
  unfolding parseOperations_def by (simp add: parseOperations_fold)

lemma rootContribution_other:
  "\<not> isRootDefinition d \<Longrightarrow> k \<in> set operationTypes \<Longrightarrow> rootContribution tm k d = []"
  by (cases d) (auto simp: isRootDefinition_def operationTypes_def)

lemma rootContribution_filter:
  "k \<in> set operationTypes \<Longrightarrow>
   concat (map (rootContribution tm k) (filter isRootDefinition doc))
   = concat (map (rootContribution tm k) doc)"
  by (induction doc) (simp_all add: rootContribution_other)

section \<open>Properties of the document classifier\<close>

lemma bucketEntries_step:
  "bucketEntries (parseExtendedTypes_body tm d m) b
   = object_assign (bucketEntries m b) (entriesFor tm b [d])"
  by (cases d; cases b; simp add: entriesFor_def js_set_map)

lemma entriesFor_Cons: "entriesFor tm b (d # doc) = entriesFor tm b [d] @ entriesFor tm b doc"
  by (simp add: entriesFor_def)

lemma bucketEntries_fold:
  "bucketEntries (fold (parseExtendedTypes_body tm) doc m) b
   = object_assign (bucketEntries m b) (entriesFor tm b doc)"
proof (induction doc arbitrary: m)
  case Nil
  show ?case by (simp add: entriesFor_def)
next
  case (Cons d doc)
  have "bucketEntries (fold (parseExtendedTypes_body tm) (d # doc) m) b
        = object_assign (bucketEntries (parseExtendedTypes_body tm d m) b) (entriesFor tm b doc)"
    by (simp add: Cons.IH)
  also have "\<dots> = object_assign (bucketEntries m b) (entriesFor tm b [d] @ entriesFor tm b doc)"
    by (simp only: bucketEntries_step object_assign_append)
  finally show ?case by (simp only: entriesFor_Cons[symmetric])
qed

lemma bucketEntries_parse:
  "bucketEntries (parseExtendedTypes tm doc) b = object_assign [] (entriesFor tm b doc)"
  unfolding parseExtendedTypes_def
  by (simp add: bucketEntries_fold) (cases b; simp add: emptyExtendedTypeMap_def)

lemma keys_entriesFor:
  "map fst (entriesFor tm b doc) = map snd (filter (\<lambda>p. fst p = b) (kindNames doc))"
proof (induction doc)
  case Nil
  show ?case by (simp add: entriesFor_def kindNames_def)
next
  case (Cons d doc)
  then show ?case by (cases d) (auto simp: entriesFor_def kindNames_def)
qed

lemma distinct_entriesFor:
  assumes "distinct (kindNames doc)"
  shows "distinct (map fst (entriesFor tm b doc))"
proof -
  have "inj_on snd (set (filter (\<lambda>p. fst p = b) (kindNames doc)))"
    by (auto simp: inj_on_def)
  with assms show ?thesis
    by (simp add: keys_entriesFor distinct_map)
qed

lemma names_entriesFor:
  "fst ` set (entriesFor tm b doc) \<subseteq> snd ` set (kindNames doc)"
proof -
  have "fst ` set (entriesFor tm b doc) = set (map fst (entriesFor tm b doc))"
    by simp
  also have "\<dots> \<subseteq> snd ` set (kindNames doc)"
    unfolding keys_entriesFor by auto
  finally show ?thesis .
qed

lemma bucketEntries_distinct:
  assumes "distinct (kindNames doc)" and "''__proto__'' \<notin> snd ` set (kindNames doc)"
  shows "set (bucketEntries (parseExtendedTypes tm doc) b) = set (entriesFor tm b doc)"
    and "length (bucketEntries (parseExtendedTypes tm doc) b) = length (entriesFor tm b doc)"
    and "distinct (map fst (bucketEntries (parseExtendedTypes tm doc) b))"
proof -
  have d: "distinct (map fst (entriesFor tm b doc))"
    using assms(1) by (rule distinct_entriesFor)
  have p: "''__proto__'' \<notin> fst ` set (entriesFor tm b doc)"
    using assms(2) names_entriesFor[of tm b doc] by blast
  have e: "fst ` set ([] :: (string \<times> Entry) list) \<inter> fst ` set (entriesFor tm b doc) = {}"
    by simp
  note F = object_assign_fresh[OF d p e]
  from F show "set (bucketEntries (parseExtendedTypes tm doc) b) = set (entriesFor tm b doc)"
    by (simp add: bucketEntries_parse)
  from F show "length (bucketEntries (parseExtendedTypes tm doc) b) = length (entriesFor tm b doc)"
    by (simp add: bucketEntries_parse)
  from F show "distinct (map fst (bucketEntries (parseExtendedTypes tm doc) b))"
    by (simp add: bucketEntries_parse)
qed

lemma entry_in_entriesFor:
  "(n, e) \<in> set (entriesFor tm b doc) \<longleftrightarrow> (\<exists>d \<in> set doc. definitionEntry tm d = Some (b, n, e))"
  by (induction doc) (auto simp: entriesFor_def split: option.splits if_splits)

lemma entryBucket_definitionEntry:
  "definitionEntry tm d = Some (b, n, e) \<Longrightarrow> entryBucket e = b"
  by (cases d) (auto simp: objectInfo_def inputInfo_def scalarInfo_def)

lemma parse_skips_other:
  "fold (parseExtendedTypes_body tm) (filter recognised doc) m
   = fold (parseExtendedTypes_body tm) doc m"
proof (induction doc arbitrary: m)
  case Nil
  show ?case by simp
next
  case (Cons d doc)
  then show ?case by (cases d) (simp_all add: recognised_def)
qed

lemma kindName_definitionEntry:
  "kindName d = (case definitionEntry tm d of None \<Rightarrow> [] | Some (b, n, e) \<Rightarrow> [(b, n)])"
  by (cases d) simp_all

lemma recognised_kindName: "recognised d = (kindName d \<noteq> [])"
  by (cases d) (simp_all add: recognised_def)

lemma bucket_sizes:
  "sum_list (map (\<lambda>b. length (entriesFor tm b doc))
      [Objects, Inputs, Scalars, Enums, Interfaces, Unions])
   = length (filter recognised doc)"
proof (induction doc)
  case Nil
  show ?case by (simp add: entriesFor_def)
next
  case (Cons d doc)
  have "sum_list (map (\<lambda>b. length (entriesFor tm b [d]))
          [Objects, Inputs, Scalars, Enums, Interfaces, Unions])
        = (if recognised d then 1 else 0)"
    by (cases d) (simp_all add: entriesFor_def recognised_def)
  with Cons.IH show ?case
    by (simp add: entriesFor_Cons[of tm _ d doc] split: if_splits)
qed

lemma inBucket_entriesFor:
  assumes "d \<in> set doc"
  shows "(case definitionEntry tm d of
            None \<Rightarrow> False
          | Some (b', n, e) \<Rightarrow> (n, e) \<in> set (entriesFor tm b doc))
         = (\<exists>n. kindName d = [(b, n)])"
proof (cases "definitionEntry tm d")
  case None
  then show ?thesis by (simp add: kindName_definitionEntry[of d tm])
next
  case (Some t)
  obtain b0 n e where t: "t = (b0, n, e)" by (cases t)
  have kn: "kindName d = [(b0, n)]"
    using Some t by (simp add: kindName_definitionEntry[of d tm])
  have "(n, e) \<in> set (entriesFor tm b doc) \<longleftrightarrow> b = b0"
  proof
    assume "(n, e) \<in> set (entriesFor tm b doc)"
    then obtain d' where "definitionEntry tm d' = Some (b, n, e)"
      by (auto simp: entry_in_entriesFor)
    then have "entryBucket e = b" by (rule entryBucket_definitionEntry)
    moreover have "entryBucket e = b0"
      using Some t by (auto intro: entryBucket_definitionEntry)
    ultimately show "b = b0" by simp
  next
    assume "b = b0"
    with assms Some t show "(n, e) \<in> set (entriesFor tm b doc)"
      by (auto simp: entry_in_entriesFor)
  qed
  with Some t kn show ?thesis by auto
qed

lemma parse_skips_other_kinds:
  "parseExtendedTypes tm (filter recognised doc) = parseExtendedTypes tm doc"
  unfolding parseExtendedTypes_def by (rule parse_skips_other)

text \<open>
  C4 (amended): for every document in which no two definitions of the same recognised
  kind share a name and no recognised definition is named \<open>__proto__\<close>, every bucket of
  \<open>parseExtendedTypes\<close> holds exactly the entries of the document's definitions of its
  kind, one per definition and each under a key of its own; each definition of the
  document appears in a bucket if and only if that bucket is the one of its kind (so a
  recognised definition is in exactly one bucket and a definition of another kind in
  none); the six buckets together have as many entries as the document has recognised
  definitions; and removing the definitions of other kinds from the document does not
  change the result (this last part needs no assumption on the names).
\<close>

theorem C4_buckets_partition:
  assumes "distinct (kindNames doc)" and "''__proto__'' \<notin> snd ` set (kindNames doc)"
  shows "(\<forall>b. set (bucketEntries (parseExtendedTypes tm doc) b) = set (entriesFor tm b doc)
             \<and> length (bucketEntries (parseExtendedTypes tm doc) b)
                 = length (entriesFor tm b doc)
             \<and> distinct (map fst (bucketEntries (parseExtendedTypes tm doc) b)))
       \<and> (\<forall>d \<in> set doc. \<forall>b.
             inBucket tm (parseExtendedTypes tm doc) b d = (\<exists>n. kindName d = [(b, n)]))
       \<and> sum_list (map (\<lambda>b. length (bucketEntries (parseExtendedTypes tm doc) b))
            [Objects, Inputs, Scalars, Enums, Interfaces, Unions])
          = length (filter recognised doc)
       \<and> parseExtendedTypes tm (filter recognised doc) = parseExtendedTypes tm doc"
proof -
  note eq = bucketEntries_distinct[OF assms, of tm]
  have one: "inBucket tm (parseExtendedTypes tm doc) b d = (\<exists>n. kindName d = [(b, n)])"
    if "d \<in> set doc" for d b
    unfolding inBucket_def eq(1) using that by (rule inBucket_entriesFor)
  have size: "sum_list (map (\<lambda>b. length (bucketEntries (parseExtendedTypes tm doc) b))
            [Objects, Inputs, Scalars, Enums, Interfaces, Unions])
          = length (filter recognised doc)"
    unfolding eq(2) by (rule bucket_sizes)
  from eq one size parse_skips_other_kinds show ?thesis by blast
qed

text \<open>
  Witness for C4 at \<open>type A  schema { query: A }  enum A { X }\<close>: the two definitions named
  \<open>A\<close> have different kinds, each lands in the bucket of its kind only.
\<close>

theorem C4_buckets_partition_witness:
  "distinct (kindNames docW)
   \<and> set (bucketEntries (parseExtendedTypes typeMap docW) Objects)
       = set (entriesFor typeMap Objects docW)
   \<and> inBucket typeMap (parseExtendedTypes typeMap docW) Objects (ObjectTypeDefinition ''A'' None (Some []))
   \<and> \<not> inBucket typeMap (parseExtendedTypes typeMap docW) Enums (ObjectTypeDefinition ''A'' None (Some []))
   \<and> inBucket typeMap (parseExtendedTypes typeMap docW) Enums (EnumTypeDefinition ''A'' None (Some [''X'']))
   \<and> length (filter recognised docW) = 2"
proof -
  have h: "distinct (kindNames docW)"
    by (simp add: docW_def kindNames_def)
  have p: "''__proto__'' \<notin> snd ` set (kindNames docW)"
    by (simp add: docW_def kindNames_def)
  have m: "ObjectTypeDefinition ''A'' None (Some []) \<in> set docW"
          "EnumTypeDefinition ''A'' None (Some [''X'']) \<in> set docW"
    by (simp_all add: docW_def)
  have r: "length (filter recognised docW) = 2"
    by (simp add: docW_def recognised_def)
  note T = C4_buckets_partition[OF h p, of typeMap]
  from T have e: "set (bucketEntries (parseExtendedTypes typeMap docW) Objects)
                  = set (entriesFor typeMap Objects docW)"
    by blast
  from T m(1) have i1: "inBucket typeMap (parseExtendedTypes typeMap docW) b
                          (ObjectTypeDefinition ''A'' None (Some []))
                        = (\<exists>n. kindName (ObjectTypeDefinition ''A'' None (Some [])) = [(b, n)])" for b
    by blast
  from T m(2) have i2: "inBucket typeMap (parseExtendedTypes typeMap docW) b
                          (EnumTypeDefinition ''A'' None (Some [''X'']))
                        = (\<exists>n. kindName (EnumTypeDefinition ''A'' None (Some [''X''])) = [(b, n)])" for b
    by blast
  show ?thesis
    unfolding i1 i2 using h e r by simp
qed

lemma parse_docDup:
  "parseExtendedTypes typeMap docDup =
     \<lparr>objects = [(''A'', \<lparr>td_kind = OBJECT_TYPE_DEFINITION, td_name = ''A'',
                  td_fields = [\<lparr>fi_kind = OBJECT_TYPE_DEFINITION, fi_name = ''y'',
                                fi_type = Str ''number'', fi_description = None\<rparr>],
                  td_description = None\<rparr>)],
      inputs = [], scalars = [], enums = [], interfaces = [], unions = []\<rparr>"
  by code_simp

text \<open>
  C4, as stated, at \<open>type A { x: Int }  type A { y: Int }\<close>: the first definition is of a
  recognised kind and appears in none of the six buckets, because the second one
  overwrote it.
\<close>

theorem C4_overwritten_definition_counterexample:
  "hd docDup \<in> set docDup \<and> recognised (hd docDup)
   \<and> \<not> inBucket typeMap (parseExtendedTypes typeMap docDup) Objects (hd docDup)
   \<and> \<not> inBucket typeMap (parseExtendedTypes typeMap docDup) Inputs (hd docDup)
   \<and> \<not> inBucket typeMap (parseExtendedTypes typeMap docDup) Scalars (hd docDup)
   \<and> \<not> inBucket typeMap (parseExtendedTypes typeMap docDup) Enums (hd docDup)
   \<and> \<not> inBucket typeMap (parseExtendedTypes typeMap docDup) Interfaces (hd docDup)
   \<and> \<not> inBucket typeMap (parseExtendedTypes typeMap docDup) Unions (hd docDup)"
  by code_simp

text \<open>
  The assignment \<open>result.objects[name] = ...\<close> under the name \<open>__proto__\<close> reaches the setter
  of \<open>Object.prototype\<close> and creates no entry: at \<open>type __proto__ { x: Int }\<close> the one
  definition is of a recognised kind and every bucket is empty.
\<close>

lemma parse_docProto:
  "recognised (hd docProto) \<and> distinct (kindNames docProto)
   \<and> parseExtendedTypes typeMap docProto = emptyExtendedTypeMap"
  by code_simp

text \<open>
  C5: \<open>parseOperations\<close> returns exactly the three keys Query, Mutation, Subscription, in
  that order; the sequence of a key is the concatenation, in document order, of the
  fields of the object type definitions whose name is exactly that key (so the map of
  the empty document has three empty sequences, definitions that are not object type
  definitions of one of the three names contribute nothing, and the fields of a longer
  document are appended to those of its beginning); a field whose \<open>arguments\<close> member is
  absent gets the empty argument sequence.
\<close>

theorem C5_parseOperations:
  "parseOperations tm doc =
     [(''Query'', concat (map (rootContribution tm ''Query'') doc)),
      (''Mutation'', concat (map (rootContribution tm ''Mutation'') doc)),
      (''Subscription'', concat (map (rootContribution tm ''Subscription'') doc))]
   \<and> parseOperations tm [] = [(''Query'', []), (''Mutation'', []), (''Subscription'', [])]
   \<and> parseOperations tm (filter isRootDefinition doc) = parseOperations tm doc
   \<and> (\<forall>k. rootFields (parseOperations tm (doc @ doc')) k
           = rootFields (parseOperations tm doc) k @ rootFields (parseOperations tm doc') k)
   \<and> of_args (operationField tm (f\<lparr>fd_arguments := None\<rparr>)) = []"
proof -
  have a: "parseOperations tm (filter isRootDefinition doc) = parseOperations tm doc"
    by (simp add: parseOperations_eq rootContribution_filter operationTypes_def)
  have b: "rootFields (parseOperations tm (doc @ doc')) k
           = rootFields (parseOperations tm doc) k @ rootFields (parseOperations tm doc') k" for k
    by (simp add: parseOperations_eq rootFields_def)
  have c: "of_args (operationField tm (f\<lparr>fd_arguments := None\<rparr>)) = []"
    by (simp add: operationField_def)
  from a b c show ?thesis
    by (simp add: parseOperations_eq)
qed

section \<open>Properties of the declaration renderer\<close>

lemma mapE_cong_set: "(\<And>x. x \<in> set xs \<Longrightarrow> f x = g x) \<Longrightarrow> mapE f xs = mapE g xs"
  by (induction xs) (simp_all split: sum.splits)

lemma mapE_returns:
  "(\<And>x. x \<in> set xs \<Longrightarrow> \<exists>y. f x = Inr y) \<Longrightarrow> \<exists>ys. mapE f xs = Inr ys"
proof (induction xs)
  case Nil
  show ?case by simp
next
  case (Cons x xs)
  from Cons.prems obtain y where y: "f x = Inr y" by auto
  from Cons obtain ys where ys: "mapE f xs = Inr ys" by auto
  show ?case by (simp add: y ys)
qed

lemma mapE_append:
  "mapE f (xs @ ys) =
     (case mapE f xs of
        Inl e \<Rightarrow> Inl e
      | Inr a \<Rightarrow> (case mapE f ys of Inl e \<Rightarrow> Inl e | Inr b \<Rightarrow> Inr (a @ b)))"
  by (induction xs) (auto split: sum.splits)

lemma mapE_Inr_append:
  assumes "mapE f (xs @ ys) = Inr zs"
  shows "\<exists>a b. mapE f xs = Inr a \<and> mapE f ys = Inr b \<and> zs = a @ b"
  using assms unfolding mapE_append by (auto split: sum.splits)

lemma mapE_Inr_Cons:
  assumes "mapE f (x # xs) = Inr zs"
  shows "\<exists>y ys. f x = Inr y \<and> mapE f xs = Inr ys \<and> zs = y # ys"
  using assms by (auto split: sum.splits)

lemma mapE_length: "mapE f xs = Inr ys \<Longrightarrow> length ys = length xs"
  by (induction xs arbitrary: ys) (auto split: sum.splits)

subsection \<open>Default options do not change what is rendered\<close>

lemma formatTypeName_defaults:
  "opt_prefix o' = orDefault '''' (opt_prefix opts) \<Longrightarrow> opt_suffix o' = orDefault '''' (opt_suffix opts)
   \<Longrightarrow> formatTypeName nm o' = formatTypeName nm opts"
  by (simp add: formatTypeName_def orDefault_def split: option.splits)

lemma getTypeScriptType_Str_defaults:
  assumes "opt_prefix o' = orDefault '''' (opt_prefix opts)"
      and "opt_suffix o' = orDefault '''' (opt_suffix opts)"
  shows "getTypeScriptType tm (Str ty) o' = getTypeScriptType tm (Str ty) opts"
proof (induction ty rule: length_induct)
  case (1 ty)
  show ?case
  proof (cases "endsWith ty ''[]''")
    case True
    then have "length (take (length ty - 2) ty) < length ty"
      by (auto simp: endsWith_def)
    with 1 have "getTypeScriptType tm (Str (take (length ty - 2) ty)) o'
                 = getTypeScriptType tm (Str (take (length ty - 2) ty)) opts"
      by blast
    with True show ?thesis
      by (simp add: getTypeScriptType.simps(2)[of tm ty])
  next
    case False
    then show ?thesis
      by (simp add: getTypeScriptType.simps(2)[of tm ty] formatTypeName_defaults[OF assms])
  qed
qed

lemma getTypeScriptType_defaults:
  assumes "opt_prefix o' = orDefault '''' (opt_prefix opts)"
      and "opt_suffix o' = orDefault '''' (opt_suffix opts)"
  shows "getTypeScriptType tm v o' = getTypeScriptType tm v opts"
  by (cases v) (simp_all add: getTypeScriptType_Str_defaults[OF assms] getTypeScriptType.simps(1))

lemma getTypeScriptType_Str_returns: "\<exists>v. getTypeScriptType tm (Str ty) opts = Inr v"
proof (induction ty rule: length_induct)
  case (1 ty)
  show ?case
  proof (cases "endsWith ty ''[]''")
    case True
    then have "length (take (length ty - 2) ty) < length ty"
      by (auto simp: endsWith_def)
    with 1 obtain v where "getTypeScriptType tm (Str (take (length ty - 2) ty)) opts = Inr v"
      by blast
    with True show ?thesis
      by (simp add: getTypeScriptType.simps(2)[of tm ty])
  next
    case False
    then show ?thesis
      by (simp add: getTypeScriptType.simps(2)[of tm ty] Let_def split: option.splits js_value.splits)
  qed
qed

lemma getTypeScriptType_returns: "is_Str v \<Longrightarrow> \<exists>t. getTypeScriptType tm v opts = Inr t"
  by (cases v) (simp_all add: getTypeScriptType_Str_returns)

lemma generateFieldDeclaration_defaults:
  assumes "opt_prefix o' = orDefault '''' (opt_prefix opts)"
      and "opt_suffix o' = orDefault '''' (opt_suffix opts)"
      and "strictNullChecks o' = orDefault False (strictNullChecks opts)"
  shows "generateFieldDeclaration tm f o' = generateFieldDeclaration tm f opts"
proof -
  have "(strictNullChecks o' = Some True) = (strictNullChecks opts = Some True)"
    using assms(3) by (auto simp: orDefault_def split: option.splits)
  then show ?thesis
    by (simp add: generateFieldDeclaration_def getTypeScriptType_defaults[OF assms(1,2)]
          split: sum.splits js_value.splits)
qed

lemma generateFieldDeclaration_Inherited:
  "fi_type f = Inherited k \<Longrightarrow> generateFieldDeclaration tm f opts = Inl TypeError"
  by (simp add: generateFieldDeclaration_def getTypeScriptType.simps(1))

lemma generateFieldDeclaration_Str:
  assumes "fi_type f = Str ty"
  shows "\<exists>tsType. getTypeScriptType tm (Str ty) opts = Inr tsType
           \<and> generateFieldDeclaration tm f opts
               = Inr (''  '' @ fi_name f
                      @ (if strictNullChecks opts = Some True \<and> CHR ''!'' \<notin> set ty
                         then ''?'' else '''')
                      @ '': '' @ to_string tsType @ '';'')"
proof -
  obtain t where t: "getTypeScriptType tm (Str ty) opts = Inr t"
    using getTypeScriptType_Str_returns by blast
  show ?thesis
    by (auto simp: generateFieldDeclaration_def assms t)
qed

lemma generateFieldDeclaration_returns:
  "is_Str (fi_type f) \<Longrightarrow> \<exists>line. generateFieldDeclaration tm f opts = Inr line"
  using generateFieldDeclaration_Str[of f _ tm opts] by (cases "fi_type f") auto

lemma generateTypeDefinition_defaults:
  assumes "opt_prefix o' = orDefault '''' (opt_prefix opts)"
      and "opt_suffix o' = orDefault '''' (opt_suffix opts)"
      and "strictNullChecks o' = orDefault False (strictNullChecks opts)"
  shows "generateTypeDefinition tm info o' = generateTypeDefinition tm info opts"
  by (simp add: generateTypeDefinition_def generateFieldDeclaration_defaults[OF assms]
        formatTypeName_defaults[OF assms(1,2)])

lemma generateTypeScriptTypes_eq:
  "generateTypeScriptTypes tm typeDefinitions opts =
     (case mapE (\<lambda>info. generateTypeDefinition tm info opts) (map snd typeDefinitions) of
        Inl e \<Rightarrow> Inl e
      | Inr declarations \<Rightarrow>
          Inr (join ''\<newline>'' (banner ''Type Definitions'' @ declarationLines declarations)))"
  unfolding generateTypeScriptTypes_def Let_def
  by (subst generateTypeDefinition_defaults[where opts = opts]) simp_all

lemma generateInputTypes_eq:
  "generateInputTypes tm inputDefinitions opts =
     (case mapE (\<lambda>info. generateTypeDefinition tm info opts) (map snd inputDefinitions) of
        Inl e \<Rightarrow> Inl e
      | Inr declarations \<Rightarrow>
          Inr (join ''\<newline>'' (banner ''Input Types'' @ declarationLines declarations)))"
  unfolding generateInputTypes_def Let_def
  by (subst generateTypeDefinition_defaults[where opts = opts]) simp_all

lemma generateInterfaceDeclaration_defaults:
  "generateInterfaceDeclaration tm info
     (opts\<lparr>useInterfaceType := orDefault False (useInterfaceType opts)\<rparr>)
   = generateInterfaceDeclaration tm info opts"
proof -
  have f: "generateFieldDeclaration tm f (opts\<lparr>useInterfaceType := u\<rparr>)
           = generateFieldDeclaration tm f opts" for f u
  proof -
    have "getTypeScriptType tm v (opts\<lparr>useInterfaceType := u\<rparr>) = getTypeScriptType tm v opts"
      for v
    proof (cases v)
      case (Inherited k)
      then show ?thesis by (simp add: getTypeScriptType.simps(1))
    next
      case (Str ty)
      have "getTypeScriptType tm (Str ty) (opts\<lparr>useInterfaceType := u\<rparr>)
            = getTypeScriptType tm (Str ty) opts"
      proof (induction ty rule: length_induct)
        case (1 ty)
        show ?case
        proof (cases "endsWith ty ''[]''")
          case True
          then have "length (take (length ty - 2) ty) < length ty"
            by (auto simp: endsWith_def)
          with 1 have "getTypeScriptType tm (Str (take (length ty - 2) ty))
                         (opts\<lparr>useInterfaceType := u\<rparr>)
                       = getTypeScriptType tm (Str (take (length ty - 2) ty)) opts"
            by blast
          with True show ?thesis
            by (simp add: getTypeScriptType.simps(2)[of tm ty])
        next
          case False
          then show ?thesis
            by (simp add: getTypeScriptType.simps(2)[of tm ty] formatTypeName_def)
        qed
      qed
      with Str show ?thesis by simp
    qed
    then show ?thesis
      by (simp add: generateFieldDeclaration_def split: sum.splits js_value.splits)
  qed
  have u: "(orDefault False (useInterfaceType opts) = Some True)
           = (useInterfaceType opts = Some True)"
    by (simp add: orDefault_def split: option.splits)
  show ?thesis
    by (simp add: generateInterfaceDeclaration_def f u formatTypeName_def Let_def
          split: sum.splits)
qed

lemma generateInterfaces_eq:
  "generateInterfaces tm interfaceDefinitions opts =
     (case mapE (\<lambda>info. generateInterfaceDeclaration tm info opts)
             (map snd interfaceDefinitions) of
        Inl e \<Rightarrow> Inl e
      | Inr declarations \<Rightarrow>
          Inr (join ''\<newline>'' (banner ''Interface Types'' @ declarationLines declarations)))"
  unfolding generateInterfaces_def Let_def generateInterfaceDeclaration_defaults
  by simp

section \<open>Properties of the field renderer\<close>

text \<open>
  C2: a field whose flattened type is a string renders as two spaces, the field name,
  the optional marker, a colon and a space, the type and a semicolon, where the marker
  is \<open>?\<close> when \<open>strictNullChecks\<close> is true and the flattened type string contains no \<open>!\<close>,
  and is empty otherwise (a field whose flattened type is not a string is not rendered:
  the call throws); so in every rendered field the character right after the field name
  is \<open>?\<close> if and only if \<open>strictNullChecks\<close> is true and the type string contains no \<open>!\<close>.
  The object and input declaration renderer and the interface declaration renderer
  render each field of their entry with the field renderer under the options they were
  given, and the three aggregate renderers of objects, inputs and interfaces render
  each entry under the caller's options: the defaults they merge in change nothing. For
  \<open>type A { tags: [String!]! }\<close> with \<open>strictNullChecks = true\<close> the field renders as
  \<open>tags?: string[];\<close>; for \<open>interface N { id: ID! }  input F { q: String }\<close> the fields
  render as \<open>id?: string;\<close> and \<open>q?: string;\<close>.
\<close>

theorem C2_optional_marker:
  "(case fi_type f of
      Inherited k \<Rightarrow> generateFieldDeclaration tm f opts = Inl TypeError
    | Str ty \<Rightarrow>
        (\<exists>tsType. getTypeScriptType tm (Str ty) opts = Inr tsType
           \<and> generateFieldDeclaration tm f opts
               = Inr (''  '' @ fi_name f
                      @ (if strictNullChecks opts = Some True \<and> CHR ''!'' \<notin> set ty
                         then ''?'' else '''')
                      @ '': '' @ to_string tsType @ '';'')))
   \<and> (\<forall>line. generateFieldDeclaration tm f opts = Inr line \<longrightarrow>
         (\<exists>ty. fi_type f = Str ty
            \<and> (line ! (2 + length (fi_name f)) = CHR ''?'')
                = (strictNullChecks opts = Some True \<and> CHR ''!'' \<notin> set ty)))
   \<and> generateTypeDefinition tm info opts =
       (case mapE (\<lambda>f. generateFieldDeclaration tm f opts) (td_fields info) of
          Inl e \<Rightarrow> Inl e
        | Inr fieldLines \<Rightarrow>
            Inr (if td_kind info = SCALAR_TYPE_DEFINITION
                 then ''export type '' @ formatTypeName (td_name info) opts @ '' = string;''
                 else ''export interface '' @ formatTypeName (td_name info) opts @ '' {\<newline>''
                      @ join ''\<newline>'' fieldLines @ ''\<newline>}''))
   \<and> generateInterfaceDeclaration tm iinfo opts =
       (case mapE (\<lambda>f. generateFieldDeclaration tm f opts) (if_fields iinfo) of
          Inl e \<Rightarrow> Inl e
        | Inr fieldLines \<Rightarrow>
            Inr (if useInterfaceType opts = Some True
                 then ''export interface '' @ formatTypeName (if_name iinfo) opts @ '' {\<newline>''
                      @ join ''\<newline>'' fieldLines @ ''\<newline>}''
                 else ''export type '' @ formatTypeName (if_name iinfo) opts @ '' = {\<newline>''
                      @ join ''\<newline>'' fieldLines @ ''\<newline>};''))
   \<and> generateTypeScriptTypes tm typeDefinitions opts =
       (case mapE (\<lambda>info. generateTypeDefinition tm info opts) (map snd typeDefinitions) of
          Inl e \<Rightarrow> Inl e
        | Inr declarations \<Rightarrow>
            Inr (join ''\<newline>'' (banner ''Type Definitions'' @ declarationLines declarations)))
   \<and> generateInputTypes tm inputDefinitions opts =
       (case mapE (\<lambda>info. generateTypeDefinition tm info opts) (map snd inputDefinitions) of
          Inl e \<Rightarrow> Inl e
        | Inr declarations \<Rightarrow>
            Inr (join ''\<newline>'' (banner ''Input Types'' @ declarationLines declarations)))
   \<and> generateInterfaces tm interfaceDefinitions opts =
       (case mapE (\<lambda>info. generateInterfaceDeclaration tm info opts)
               (map snd interfaceDefinitions) of
          Inl e \<Rightarrow> Inl e
        | Inr declarations \<Rightarrow>
            Inr (join ''\<newline>'' (banner ''Interface Types'' @ declarationLines declarations)))
   \<and> generateAll typeMap docD (noOptions\<lparr>strictNullChecks := Some True\<rparr>) =
       Inr [\<lparr>filename = ''types.ts'',
             content = ''/* Auto-generated by koatty-graphql */\<newline>\<newline>// Type Definitions\<newline>\<newline>export interface A {\<newline>  tags?: string[];\<newline>}\<newline>''\<rparr>]
   \<and> generateAll typeMap docNF (noOptions\<lparr>strictNullChecks := Some True\<rparr>) =
       Inr [\<lparr>filename = ''inputs.ts'',
             content = ''/* Auto-generated by koatty-graphql */\<newline>\<newline>// Input Types\<newline>\<newline>export interface F {\<newline>  q?: string;\<newline>}\<newline>''\<rparr>,
            \<lparr>filename = ''interfaces.ts'',
             content = ''/* Auto-generated by koatty-graphql */\<newline>\<newline>// Interface Types\<newline>\<newline>export type N = {\<newline>  id?: string;\<newline>};\<newline>''\<rparr>]"
proof -
  have shape: "(case fi_type f of
      Inherited k \<Rightarrow> generateFieldDeclaration tm f opts = Inl TypeError
    | Str ty \<Rightarrow>
        (\<exists>tsType. getTypeScriptType tm (Str ty) opts = Inr tsType
           \<and> generateFieldDeclaration tm f opts
               = Inr (''  '' @ fi_name f
                      @ (if strictNullChecks opts = Some True \<and> CHR ''!'' \<notin> set ty
                         then ''?'' else '''')
                      @ '': '' @ to_string tsType @ '';'')))"
  proof (cases "fi_type f")
    case (Str ty)
    from generateFieldDeclaration_Str[OF this, of tm opts] Str show ?thesis by simp
  next
    case (Inherited k)
    from generateFieldDeclaration_Inherited[OF this, of tm opts] Inherited show ?thesis by simp
  qed
  have at: "(''  '' @ nm @ rest) ! (2 + length nm) = hd rest"
    if "rest \<noteq> []" for rest nm :: string
    using that by (cases rest) (simp_all add: nth_append)
  have marker: "\<exists>ty. fi_type f = Str ty
            \<and> (line ! (2 + length (fi_name f)) = CHR ''?'')
                = (strictNullChecks opts = Some True \<and> CHR ''!'' \<notin> set ty)"
    if line: "generateFieldDeclaration tm f opts = Inr line" for line
  proof (cases "fi_type f")
    case (Inherited k)
    from generateFieldDeclaration_Inherited[OF this, of tm opts] line show ?thesis by simp
  next
    case (Str ty)
    from generateFieldDeclaration_Str[OF this, of tm opts] line
    obtain tsType where l: "line = ''  '' @ fi_name f
                      @ (if strictNullChecks opts = Some True \<and> CHR ''!'' \<notin> set ty
                         then ''?'' else '''')
                      @ '': '' @ to_string tsType @ '';''"
      by auto
    have "(line ! (2 + length (fi_name f)) = CHR ''?'')
                = (strictNullChecks opts = Some True \<and> CHR ''!'' \<notin> set ty)"
      unfolding l by (subst at) simp_all
    with Str show ?thesis by simp
  qed
  have td: "generateTypeDefinition tm info opts =
       (case mapE (\<lambda>f. generateFieldDeclaration tm f opts) (td_fields info) of
          Inl e \<Rightarrow> Inl e
        | Inr fieldLines \<Rightarrow>
            Inr (if td_kind info = SCALAR_TYPE_DEFINITION
                 then ''export type '' @ formatTypeName (td_name info) opts @ '' = string;''
                 else ''export interface '' @ formatTypeName (td_name info) opts @ '' {\<newline>''
                      @ join ''\<newline>'' fieldLines @ ''\<newline>}''))"
    by (simp add: generateTypeDefinition_def Let_def split: sum.splits)
  have idecl: "generateInterfaceDeclaration tm iinfo opts =
       (case mapE (\<lambda>f. generateFieldDeclaration tm f opts) (if_fields iinfo) of
          Inl e \<Rightarrow> Inl e
        | Inr fieldLines \<Rightarrow>
            Inr (if useInterfaceType opts = Some True
                 then ''export interface '' @ formatTypeName (if_name iinfo) opts @ '' {\<newline>''
                      @ join ''\<newline>'' fieldLines @ ''\<newline>}''
                 else ''export type '' @ formatTypeName (if_name iinfo) opts @ '' = {\<newline>''
                      @ join ''\<newline>'' fieldLines @ ''\<newline>};''))"
    by (simp add: generateInterfaceDeclaration_def Let_def split: sum.splits)
  have scenario: "generateAll typeMap docD (noOptions\<lparr>strictNullChecks := Some True\<rparr>) =
       Inr [\<lparr>filename = ''types.ts'',
             content = ''/* Auto-generated by koatty-graphql */\<newline>\<newline>// Type Definitions\<newline>\<newline>export interface A {\<newline>  tags?: string[];\<newline>}\<newline>''\<rparr>]"
    by code_simp
  have scenario2: "generateAll typeMap docNF (noOptions\<lparr>strictNullChecks := Some True\<rparr>) =
       Inr [\<lparr>filename = ''inputs.ts'',
             content = ''/* Auto-generated by koatty-graphql */\<newline>\<newline>// Input Types\<newline>\<newline>export interface F {\<newline>  q?: string;\<newline>}\<newline>''\<rparr>,
            \<lparr>filename = ''interfaces.ts'',
             content = ''/* Auto-generated by koatty-graphql */\<newline>\<newline>// Interface Types\<newline>\<newline>export type N = {\<newline>  id?: string;\<newline>};\<newline>''\<rparr>]"
    by code_simp
  from shape marker td idecl generateTypeScriptTypes_eq generateInputTypes_eq
    generateInterfaces_eq scenario scenario2
  show ?thesis by (intro conjI allI impI)
qed

text \<open>
  Witness for C2 at the field \<open>tags\<close> of flattened type \<open>string[]\<close> with
  \<open>strictNullChecks = true\<close>.
\<close>

theorem C2_optional_marker_witness:
  "generateFieldDeclaration typeMap
     \<lparr>fi_kind = OBJECT_TYPE_DEFINITION, fi_name = ''tags'', fi_type = Str ''string[]'',
      fi_description = None\<rparr>
     (noOptions\<lparr>strictNullChecks := Some True\<rparr>) = Inr ''  tags?: string[];''
   \<and> (''  tags?: string[];'' ! (2 + length ''tags'') = CHR ''?'')
       = (strictNullChecks (noOptions\<lparr>strictNullChecks := Some True\<rparr>) = Some True
          \<and> CHR ''!'' \<notin> set ''string[]'')"
proof -
  let ?f = "\<lparr>fi_kind = OBJECT_TYPE_DEFINITION, fi_name = ''tags'', fi_type = Str ''string[]'',
             fi_description = None\<rparr>"
  let ?o = "noOptions\<lparr>strictNullChecks := Some True\<rparr>"
  have h: "generateFieldDeclaration typeMap ?f ?o = Inr ''  tags?: string[];''"
    by code_simp
  from C2_optional_marker[where f = ?f and tm = typeMap and opts = ?o]
  have "\<forall>line. generateFieldDeclaration typeMap ?f ?o = Inr line \<longrightarrow>
         (\<exists>ty. fi_type ?f = Str ty
            \<and> (line ! (2 + length (fi_name ?f)) = CHR ''?'')
                = (strictNullChecks ?o = Some True \<and> CHR ''!'' \<notin> set ty))"
    by (rule conjunct1[OF conjunct2])
  with h have "\<exists>ty. fi_type ?f = Str ty
            \<and> (''  tags?: string[];'' ! (2 + length (fi_name ?f)) = CHR ''?'')
                = (strictNullChecks ?o = Some True \<and> CHR ''!'' \<notin> set ty)"
    by blast
  then have "(''  tags?: string[];'' ! (2 + length ''tags'') = CHR ''?'')
       = (strictNullChecks ?o = Some True \<and> CHR ''!'' \<notin> set ''string[]'')"
    by simp
  with h show ?thesis by (rule conjI)
qed

text \<open>
  C3, evaluated: for every prefix \<open>p\<close> and suffix \<open>s\<close>, a field whose flattened type is
  \<open>string\<close> renders with the type \<open>p\<close> + \<open>string\<close> + \<open>s\<close>; with the prefix \<open>I\<close> it is
  \<open>Istring\<close>, and \<open>type User { id: ID! }\<close> renders as an interface \<open>IUser\<close> with the field
  \<open>id: Istring;\<close>. \<open>getTypeScriptType\<close> looks the flattened name up among the keys of the
  scalar map, which are the GraphQL scalar names, so a name that the resolver already
  replaced by \<open>string\<close>, \<open>number\<close> or \<open>boolean\<close> is not found and is formatted.
\<close>

theorem C3_prefix_reaches_primitive:
  "generateFieldDeclaration typeMap
     \<lparr>fi_kind = OBJECT_TYPE_DEFINITION, fi_name = ''id'', fi_type = Str ''string'',
      fi_description = None\<rparr>
     (noOptions\<lparr>opt_prefix := Some p, opt_suffix := Some s\<rparr>)
     = Inr (''  id: '' @ p @ ''string'' @ s @ '';'')
   \<and> generateFieldDeclaration typeMap
     \<lparr>fi_kind = OBJECT_TYPE_DEFINITION, fi_name = ''id'', fi_type = Str ''string'',
      fi_description = None\<rparr>
     (noOptions\<lparr>opt_prefix := Some ''I''\<rparr>) = Inr ''  id: Istring;''
   \<and> generateAll typeMap docUser (noOptions\<lparr>opt_prefix := Some ''I''\<rparr>) =
       Inr [\<lparr>filename = ''types.ts'',
             content = ''/* Auto-generated by koatty-graphql */\<newline>\<newline>// Type Definitions\<newline>\<newline>export interface IUser {\<newline>  id: Istring;\<newline>}\<newline>''\<rparr>]"
proof -
  have general: "generateFieldDeclaration typeMap
     \<lparr>fi_kind = OBJECT_TYPE_DEFINITION, fi_name = ''id'', fi_type = Str ''string'',
      fi_description = None\<rparr>
     (noOptions\<lparr>opt_prefix := Some p, opt_suffix := Some s\<rparr>)
     = Inr (''  id: '' @ p @ ''string'' @ s @ '';'')"
    by (simp add: generateFieldDeclaration_def getTypeScriptType.simps(2)[of _ "''string''"]
          endsWith_def formatTypeName_def getScalarTypeMap_def typeMap_def noOptions_def
          js_get_def objectPrototypeKeys_def to_string_def)
  have field: "generateFieldDeclaration typeMap
     \<lparr>fi_kind = OBJECT_TYPE_DEFINITION, fi_name = ''id'', fi_type = Str ''string'',
      fi_description = None\<rparr>
     (noOptions\<lparr>opt_prefix := Some ''I''\<rparr>) = Inr ''  id: Istring;''"
    by code_simp
  have unit: "generateAll typeMap docUser (noOptions\<lparr>opt_prefix := Some ''I''\<rparr>) =
       Inr [\<lparr>filename = ''types.ts'',
             content = ''/* Auto-generated by koatty-graphql */\<newline>\<newline>// Type Definitions\<newline>\<newline>export interface IUser {\<newline>  id: Istring;\<newline>}\<newline>''\<rparr>]"
    by code_simp
  from general field unit show ?thesis by (intro conjI)
qed

section \<open>Properties of the orchestrator\<close>

lemma bindE_Inr: "(bindE m k = Inr y) = (\<exists>x. m = Inr x \<and> k x = Inr y)"
  by (cases m) (simp_all add: bindE_def)

lemma pushIf_Inr:
  "(pushIf c n r rs = Inr out)
   = (if c then (\<exists>t. r = Inr t \<and> out = rs @ [\<lparr>filename = n, content = t\<rparr>]) else out = rs)"
  by (cases r) (auto simp: pushIf_def)

lemma hasOperations_parse:
  "hasOperations (parseOperations tm doc) = (\<not> rootsEmpty (parseOperations tm doc))"
  by (simp add: parseOperations_eq hasOperations_def rootsEmpty_def rootFields_def)

lemma generateAll_Inr:
  "(generateAll tm doc opts = Inr units) =
   (\<exists>r1 r2 r3 r4 r5.
      pushIf (objects (parseExtendedTypes tm doc) \<noteq> []) ''types.ts''
        (generateTypeScriptTypes tm (objects (parseExtendedTypes tm doc)) opts) [] = Inr r1
    \<and> pushIf (inputs (parseExtendedTypes tm doc) \<noteq> []) ''inputs.ts''
        (generateInputTypes tm (inputs (parseExtendedTypes tm doc)) opts) r1 = Inr r2
    \<and> pushIf (enums (parseExtendedTypes tm doc) \<noteq> []) ''enums.ts''
        (Inr (generateEnums (enums (parseExtendedTypes tm doc)) opts)) r2 = Inr r3
    \<and> pushIf (interfaces (parseExtendedTypes tm doc) \<noteq> []) ''interfaces.ts''
        (generateInterfaces tm (interfaces (parseExtendedTypes tm doc)) opts) r3 = Inr r4
    \<and> pushIf (unions (parseExtendedTypes tm doc) \<noteq> []) ''unions.ts''
        (Inr (generateUnions (unions (parseExtendedTypes tm doc)) opts)) r4 = Inr r5
    \<and> pushIf (\<not> rootsEmpty (parseOperations tm doc)) ''operations.ts''
        (generateOperations tm (parseOperations tm doc) opts) r5 = Inr units)"
  unfolding generateAll_def Let_def bindE_Inr hasOperations_parse
  by simp

lemma filename_pushIf:
  "pushIf c n r rs = Inr out \<Longrightarrow> map filename out = map filename rs @ (if c then [n] else [])"
  by (auto simp: pushIf_Inr split: if_splits)

lemma filter_pushIf:
  "pushIf c n r rs = Inr out \<Longrightarrow>
   (c \<and> n = x \<longrightarrow> (\<exists>t. r = Inr t
        \<and> filter (\<lambda>u. filename u = x) out
            = filter (\<lambda>u. filename u = x) rs @ [\<lparr>filename = n, content = t\<rparr>]))
   \<and> (\<not> (c \<and> n = x) \<longrightarrow>
        filter (\<lambda>u. filename u = x) out = filter (\<lambda>u. filename u = x) rs)"
  by (auto simp: pushIf_Inr split: if_splits)

lemma generateAll_filenames:
  assumes "generateAll tm doc opts = Inr units"
  shows "map filename units =
     (if objects (parseExtendedTypes tm doc) = [] then [] else [''types.ts''])
     @ (if inputs (parseExtendedTypes tm doc) = [] then [] else [''inputs.ts''])
     @ (if enums (parseExtendedTypes tm doc) = [] then [] else [''enums.ts''])
     @ (if interfaces (parseExtendedTypes tm doc) = [] then [] else [''interfaces.ts''])
     @ (if unions (parseExtendedTypes tm doc) = [] then [] else [''unions.ts''])
     @ (if rootsEmpty (parseOperations tm doc) then [] else [''operations.ts''])"
proof -
  from assms obtain r1 r2 r3 r4 r5 where
    s: "pushIf (objects (parseExtendedTypes tm doc) \<noteq> []) ''types.ts''
        (generateTypeScriptTypes tm (objects (parseExtendedTypes tm doc)) opts) [] = Inr r1"
    "pushIf (inputs (parseExtendedTypes tm doc) \<noteq> []) ''inputs.ts''
        (generateInputTypes tm (inputs (parseExtendedTypes tm doc)) opts) r1 = Inr r2"
    "pushIf (enums (parseExtendedTypes tm doc) \<noteq> []) ''enums.ts''
        (Inr (generateEnums (enums (parseExtendedTypes tm doc)) opts)) r2 = Inr r3"
    "pushIf (interfaces (parseExtendedTypes tm doc) \<noteq> []) ''interfaces.ts''
        (generateInterfaces tm (interfaces (parseExtendedTypes tm doc)) opts) r3 = Inr r4"
    "pushIf (unions (parseExtendedTypes tm doc) \<noteq> []) ''unions.ts''
        (Inr (generateUnions (unions (parseExtendedTypes tm doc)) opts)) r4 = Inr r5"
    "pushIf (\<not> rootsEmpty (parseOperations tm doc)) ''operations.ts''
        (generateOperations tm (parseOperations tm doc) opts) r5 = Inr units"
    unfolding generateAll_Inr by blast
  show ?thesis
    by (simp only: filename_pushIf[OF s(6)] filename_pushIf[OF s(5)] filename_pushIf[OF s(4)]
          filename_pushIf[OF s(3)] filename_pushIf[OF s(2)] filename_pushIf[OF s(1)])
       simp
qed

lemma generateAll_operations_unit:
  assumes "generateAll tm doc opts = Inr units"
  shows "(rootsEmpty (parseOperations tm doc) \<longrightarrow>
            filter (\<lambda>u. filename u = ''operations.ts'') units = [])
       \<and> (\<not> rootsEmpty (parseOperations tm doc) \<longrightarrow>
            (\<exists>t. generateOperations tm (parseOperations tm doc) opts = Inr t
               \<and> filter (\<lambda>u. filename u = ''operations.ts'') units
                   = [\<lparr>filename = ''operations.ts'', content = t\<rparr>]))"
proof -
  from assms obtain r1 r2 r3 r4 r5 where
    s: "pushIf (objects (parseExtendedTypes tm doc) \<noteq> []) ''types.ts''
        (generateTypeScriptTypes tm (objects (parseExtendedTypes tm doc)) opts) [] = Inr r1"
    "pushIf (inputs (parseExtendedTypes tm doc) \<noteq> []) ''inputs.ts''
        (generateInputTypes tm (inputs (parseExtendedTypes tm doc)) opts) r1 = Inr r2"
    "pushIf (enums (parseExtendedTypes tm doc) \<noteq> []) ''enums.ts''
        (Inr (generateEnums (enums (parseExtendedTypes tm doc)) opts)) r2 = Inr r3"
    "pushIf (interfaces (parseExtendedTypes tm doc) \<noteq> []) ''interfaces.ts''
        (generateInterfaces tm (interfaces (parseExtendedTypes tm doc)) opts) r3 = Inr r4"
    "pushIf (unions (parseExtendedTypes tm doc) \<noteq> []) ''unions.ts''
        (Inr (generateUnions (unions (parseExtendedTypes tm doc)) opts)) r4 = Inr r5"
    "pushIf (\<not> rootsEmpty (parseOperations tm doc)) ''operations.ts''
        (generateOperations tm (parseOperations tm doc) opts) r5 = Inr units"
    unfolding generateAll_Inr by blast
  let ?F = "filter (\<lambda>u. filename u = ''operations.ts'')"
  have "?F r1 = []" using filter_pushIf[OF s(1), of "''operations.ts''"] by simp
  then have "?F r2 = []" using filter_pushIf[OF s(2), of "''operations.ts''"] by simp
  then have "?F r3 = []" using filter_pushIf[OF s(3), of "''operations.ts''"] by simp
  then have "?F r4 = []" using filter_pushIf[OF s(4), of "''operations.ts''"] by simp
  then have "?F r5 = []" using filter_pushIf[OF s(5), of "''operations.ts''"] by simp
  then show ?thesis using filter_pushIf[OF s(6), of "''operations.ts''"] by simp
qed

lemma generateAll_types_unit:
  assumes "generateAll tm doc opts = Inr units"
  shows "(objects (parseExtendedTypes tm doc) = [] \<longrightarrow>
            filter (\<lambda>u. filename u = ''types.ts'') units = [])
       \<and> (objects (parseExtendedTypes tm doc) \<noteq> [] \<longrightarrow>
            (\<exists>t. generateTypeScriptTypes tm (objects (parseExtendedTypes tm doc)) opts = Inr t
               \<and> filter (\<lambda>u. filename u = ''types.ts'') units
                   = [\<lparr>filename = ''types.ts'', content = t\<rparr>]))"
proof -
  from assms obtain r1 r2 r3 r4 r5 where
    s: "pushIf (objects (parseExtendedTypes tm doc) \<noteq> []) ''types.ts''
        (generateTypeScriptTypes tm (objects (parseExtendedTypes tm doc)) opts) [] = Inr r1"
    "pushIf (inputs (parseExtendedTypes tm doc) \<noteq> []) ''inputs.ts''
        (generateInputTypes tm (inputs (parseExtendedTypes tm doc)) opts) r1 = Inr r2"
    "pushIf (enums (parseExtendedTypes tm doc) \<noteq> []) ''enums.ts''
        (Inr (generateEnums (enums (parseExtendedTypes tm doc)) opts)) r2 = Inr r3"
    "pushIf (interfaces (parseExtendedTypes tm doc) \<noteq> []) ''interfaces.ts''
        (generateInterfaces tm (interfaces (parseExtendedTypes tm doc)) opts) r3 = Inr r4"
    "pushIf (unions (parseExtendedTypes tm doc) \<noteq> []) ''unions.ts''
        (Inr (generateUnions (unions (parseExtendedTypes tm doc)) opts)) r4 = Inr r5"
    "pushIf (\<not> rootsEmpty (parseOperations tm doc)) ''operations.ts''
        (generateOperations tm (parseOperations tm doc) opts) r5 = Inr units"
    unfolding generateAll_Inr by blast
  let ?F = "filter (\<lambda>u. filename u = ''types.ts'')"
  have a: "?F r2 = ?F r1" using filter_pushIf[OF s(2), of "''types.ts''"] by simp
  have b: "?F r3 = ?F r2" using filter_pushIf[OF s(3), of "''types.ts''"] by simp
  have c: "?F r4 = ?F r3" using filter_pushIf[OF s(4), of "''types.ts''"] by simp
  have d: "?F r5 = ?F r4" using filter_pushIf[OF s(5), of "''types.ts''"] by simp
  have e: "?F units = ?F r5" using filter_pushIf[OF s(6), of "''types.ts''"] by simp
  have "?F units = ?F r1" by (simp only: a b c d e)
  then show ?thesis using filter_pushIf[OF s(1), of "''types.ts''"] by simp
qed

subsection \<open>The operations renderer on the extracted operations\<close>

lemma operationFieldLine_defaults:
  assumes "opt_prefix o' = orDefault '''' (opt_prefix opts)"
      and "opt_suffix o' = orDefault '''' (opt_suffix opts)"
  shows "operationFieldLine tm o' f = operationFieldLine tm opts f"
proof -
  have "operationArgText tm o' = operationArgText tm opts"
    by (simp add: fun_eq_iff operationArgText_def getTypeScriptType_defaults[OF assms])
  then show ?thesis
    by (simp add: operationFieldLine_def getTypeScriptType_defaults[OF assms] Let_def
          split: sum.splits)
qed

lemma operationLines_defaults:
  assumes "opt_prefix o' = orDefault '''' (opt_prefix opts)"
      and "opt_suffix o' = orDefault '''' (opt_suffix opts)"
  shows "operationLines tm o' (k, fs)
         = (case mapE (operationFieldLine tm opts) fs of
              Inl e \<Rightarrow> Inl e
            | Inr signatures \<Rightarrow>
                Inr (interfaceBlock (formatTypeName k opts) (join ''\<newline>'' signatures)))"
proof -
  have "operationFieldLine tm o' = operationFieldLine tm opts"
    using operationFieldLine_defaults[OF assms] by (simp add: fun_eq_iff)
  then show ?thesis
    by (simp add: operationLines_def interfaceBlock_def formatTypeName_defaults[OF assms]
          Let_def split: sum.splits)
qed

lemma generateOperations_parse:
  "generateOperations tm (parseOperations tm doc) opts =
     (case mapE (operationFieldLine tm opts) (rootFields (parseOperations tm doc) ''Query'') of
        Inl e \<Rightarrow> Inl e
      | Inr lq \<Rightarrow>
     (case mapE (operationFieldLine tm opts)
             (rootFields (parseOperations tm doc) ''Mutation'') of
        Inl e \<Rightarrow> Inl e
      | Inr lm \<Rightarrow>
     (case mapE (operationFieldLine tm opts)
             (rootFields (parseOperations tm doc) ''Subscription'') of
        Inl e \<Rightarrow> Inl e
      | Inr ls \<Rightarrow>
          Inr (join ''\<newline>''
                 (banner ''Operations''
                  @ interfaceBlock (formatTypeName ''Query'' opts) (join ''\<newline>'' lq)
                  @ interfaceBlock (formatTypeName ''Mutation'' opts) (join ''\<newline>'' lm)
                  @ interfaceBlock (formatTypeName ''Subscription'' opts)
                      (join ''\<newline>'' ls))))))"
  unfolding generateOperations_def Let_def
  by (simp add: parseOperations_eq rootFields_def operationLines_defaults split: sum.splits)

subsection \<open>Documents whose type references flatten to strings\<close>

lemma bucket_entry_origin:
  assumes "(n, e) \<in> set (bucketEntries (parseExtendedTypes tm doc) b)"
  shows "\<exists>d \<in> set doc. definitionEntry tm d = Some (b, n, e)"
proof -
  from assms have "(n, e) \<in> set (object_assign [] (entriesFor tm b doc))"
    by (simp only: bucketEntries_parse)
  with set_object_assign_subset[of "[]" "entriesFor tm b doc"]
  have "(n, e) \<in> set (entriesFor tm b doc)" by auto
  then show ?thesis by (simp only: entry_in_entriesFor)
qed

lemma stringTyped_reference:
  "stringTyped tm doc \<Longrightarrow> d \<in> set doc \<Longrightarrow> t \<in> set (definitionTypes d)
   \<Longrightarrow> is_Str (getTypeName tm t)"
  by (auto simp: stringTyped_def list_all_iff)

lemma objects_string_fields:
  assumes "stringTyped tm doc"
      and "(n, info) \<in> set (objects (parseExtendedTypes tm doc))"
      and "f \<in> set (td_fields info)"
  shows "is_Str (fi_type f)"
proof -
  from assms(2) have "(n, TypeEntry info) \<in> set (bucketEntries (parseExtendedTypes tm doc) Objects)"
    by force
  from bucket_entry_origin[OF this]
  obtain d where d: "d \<in> set doc" "definitionEntry tm d = Some (Objects, n, TypeEntry info)"
    by blast
  from d(2) obtain dsc fs where shape: "d = ObjectTypeDefinition n dsc fs"
      "info = objectInfo tm n dsc fs"
    by (cases d) auto
  from assms(3) obtain g where g: "g \<in> set (case fs of None \<Rightarrow> [] | Some fl \<Rightarrow> fl)"
      "f = fieldInfo OBJECT_TYPE_DEFINITION tm g"
    unfolding shape by (auto simp: objectInfo_def split: option.splits)
  from g(1) have "fd_type g \<in> set (definitionTypes d)"
    unfolding shape by auto
  from stringTyped_reference[OF assms(1) d(1) this] show ?thesis
    unfolding g(2) by (simp add: fieldInfo_def)
qed

lemma inputs_string_fields:
  assumes "stringTyped tm doc"
      and "(n, info) \<in> set (inputs (parseExtendedTypes tm doc))"
      and "f \<in> set (td_fields info)"
  shows "is_Str (fi_type f)"
proof -
  from assms(2) have "(n, TypeEntry info) \<in> set (bucketEntries (parseExtendedTypes tm doc) Inputs)"
    by force
  from bucket_entry_origin[OF this]
  obtain d where d: "d \<in> set doc" "definitionEntry tm d = Some (Inputs, n, TypeEntry info)"
    by blast
  from d(2) obtain dsc fs where shape: "d = InputObjectTypeDefinition n dsc fs"
      "info = inputInfo tm n dsc fs"
    by (cases d) auto
  from assms(3) obtain g where g: "g \<in> set (case fs of None \<Rightarrow> [] | Some fl \<Rightarrow> fl)"
      "f = inputFieldInfo tm g"
    unfolding shape by (auto simp: inputInfo_def split: option.splits)
  from g(1) have "iv_type g \<in> set (definitionTypes d)"
    unfolding shape by auto
  from stringTyped_reference[OF assms(1) d(1) this] show ?thesis
    unfolding g(2) by (simp add: inputFieldInfo_def)
qed

lemma interfaces_string_fields:
  assumes "stringTyped tm doc"
      and "(n, info) \<in> set (interfaces (parseExtendedTypes tm doc))"
      and "f \<in> set (if_fields info)"
  shows "is_Str (fi_type f)"
proof -
  from assms(2)
  have "(n, InterfaceEntry info) \<in> set (bucketEntries (parseExtendedTypes tm doc) Interfaces)"
    by force
  from bucket_entry_origin[OF this]
  obtain d where d: "d \<in> set doc"
      "definitionEntry tm d = Some (Interfaces, n, InterfaceEntry info)"
    by blast
  from d(2) obtain dsc fs where shape: "d = InterfaceTypeDefinition n dsc fs"
      "info = interfaceInfo tm n dsc fs"
    by (cases d) auto
  from assms(3) obtain g where g: "g \<in> set (case fs of None \<Rightarrow> [] | Some fl \<Rightarrow> fl)"
      "f = fieldInfo INTERFACE_TYPE_DEFINITION tm g"
    unfolding shape by (auto simp: interfaceInfo_def split: option.splits)
  from g(1) have "fd_type g \<in> set (definitionTypes d)"
    unfolding shape by auto
  from stringTyped_reference[OF assms(1) d(1) this] show ?thesis
    unfolding g(2) by (simp add: fieldInfo_def)
qed

lemma rootFields_parse:
  "k \<in> set operationTypes \<Longrightarrow>
   rootFields (parseOperations tm doc) k = concat (map (rootContribution tm k) doc)"
  by (auto simp: parseOperations_eq rootFields_def operationTypes_def)

lemma rootFields_string:
  assumes "stringTyped tm doc" and "k \<in> set operationTypes"
      and "f \<in> set (rootFields (parseOperations tm doc) k)"
  shows "is_Str (of_returnType f)" and "a \<in> set (of_args f) \<Longrightarrow> is_Str (oa_type a)"
proof -
  from assms(3) obtain d where d: "d \<in> set doc" "f \<in> set (rootContribution tm k d)"
    unfolding rootFields_parse[OF assms(2)] by auto
  from d(2) obtain dsc fs where shape: "d = ObjectTypeDefinition k dsc fs"
    by (cases d) (auto split: if_splits)
  from d(2) obtain g where g: "g \<in> set (case fs of None \<Rightarrow> [] | Some fl \<Rightarrow> fl)"
      "f = operationField tm g"
    unfolding shape by auto
  from g(1) have "fd_type g \<in> set (definitionTypes d)"
    unfolding shape by auto
  from stringTyped_reference[OF assms(1) d(1) this] show "is_Str (of_returnType f)"
    unfolding g(2) by (simp add: operationField_def)
  assume "a \<in> set (of_args f)"
  then obtain arg where arg: "arg \<in> set (case fd_arguments g of None \<Rightarrow> [] | Some as \<Rightarrow> as)"
      "a = operationArg tm arg"
    unfolding g(2) by (auto simp: operationField_def split: option.splits)
  from g(1) arg(1) have "iv_type arg \<in> set (definitionTypes d)"
    unfolding shape by auto
  from stringTyped_reference[OF assms(1) d(1) this] show "is_Str (oa_type a)"
    unfolding arg(2) by (simp add: operationArg_def)
qed

lemma operationFieldLine_returns:
  assumes "is_Str (of_returnType f)" and "\<And>a. a \<in> set (of_args f) \<Longrightarrow> is_Str (oa_type a)"
  shows "\<exists>l. operationFieldLine tm opts f = Inr l"
proof -
  have "\<exists>y. operationArgText tm opts a = Inr y" if "a \<in> set (of_args f)" for a
    using getTypeScriptType_returns[OF assms(2)[OF that], of tm opts]
    by (auto simp: operationArgText_def)
  from mapE_returns[of "of_args f" "operationArgText tm opts", OF this]
  obtain ys where ys: "mapE (operationArgText tm opts) (of_args f) = Inr ys" by blast
  from getTypeScriptType_returns[OF assms(1), of tm opts]
  obtain t where t: "getTypeScriptType tm (of_returnType f) opts = Inr t" by blast
  show ?thesis by (simp add: operationFieldLine_def ys t)
qed

lemma root_signatures_return:
  assumes "stringTyped tm doc" and "k \<in> set operationTypes"
  shows "\<exists>ls. mapE (operationFieldLine tm opts) (rootFields (parseOperations tm doc) k) = Inr ls"
proof (rule mapE_returns)
  fix f assume f: "f \<in> set (rootFields (parseOperations tm doc) k)"
  show "\<exists>y. operationFieldLine tm opts f = Inr y"
    using rootFields_string[OF assms f] by (rule operationFieldLine_returns)
qed

lemma generateOperations_returns:
  assumes "stringTyped tm doc"
  shows "\<exists>t. generateOperations tm (parseOperations tm doc) opts = Inr t"
proof -
  obtain lq where lq: "mapE (operationFieldLine tm opts)
                         (rootFields (parseOperations tm doc) ''Query'') = Inr lq"
    using root_signatures_return[OF assms, of "''Query''" opts]
    by (auto simp: operationTypes_def)
  obtain lm where lm: "mapE (operationFieldLine tm opts)
                         (rootFields (parseOperations tm doc) ''Mutation'') = Inr lm"
    using root_signatures_return[OF assms, of "''Mutation''" opts]
    by (auto simp: operationTypes_def)
  obtain ls where ls: "mapE (operationFieldLine tm opts)
                         (rootFields (parseOperations tm doc) ''Subscription'') = Inr ls"
    using root_signatures_return[OF assms, of "''Subscription''" opts]
    by (auto simp: operationTypes_def)
  show ?thesis
    unfolding generateOperations_parse by (simp add: lq lm ls)
qed

lemma generateTypeDefinition_returns:
  assumes "\<And>f. f \<in> set (td_fields info) \<Longrightarrow> is_Str (fi_type f)"
  shows "\<exists>t. generateTypeDefinition tm info opts = Inr t"
proof -
  have "\<exists>ls. mapE (\<lambda>f. generateFieldDeclaration tm f opts) (td_fields info) = Inr ls"
    by (rule mapE_returns) (rule generateFieldDeclaration_returns, rule assms)
  then show ?thesis
    by (auto simp: generateTypeDefinition_def Let_def)
qed

lemma generateInterfaceDeclaration_returns:
  assumes "\<And>f. f \<in> set (if_fields info) \<Longrightarrow> is_Str (fi_type f)"
  shows "\<exists>t. generateInterfaceDeclaration tm info opts = Inr t"
proof -
  have "\<exists>ls. mapE (\<lambda>f. generateFieldDeclaration tm f opts) (if_fields info) = Inr ls"
    by (rule mapE_returns) (rule generateFieldDeclaration_returns, rule assms)
  then show ?thesis
    by (auto simp: generateInterfaceDeclaration_def Let_def)
qed

lemma generateTypeScriptTypes_returns:
  assumes "\<And>n info f. (n, info) \<in> set defs \<Longrightarrow> f \<in> set (td_fields info) \<Longrightarrow> is_Str (fi_type f)"
  shows "\<exists>t. generateTypeScriptTypes tm defs opts = Inr t"
proof -
  have "\<exists>ds. mapE (\<lambda>info. generateTypeDefinition tm info opts) (map snd defs) = Inr ds"
  proof (rule mapE_returns)
    fix info assume "info \<in> set (map snd defs)"
    then obtain n where "(n, info) \<in> set defs" by auto
    from assms[OF this] show "\<exists>y. generateTypeDefinition tm info opts = Inr y"
      by (rule generateTypeDefinition_returns)
  qed
  then show ?thesis
    unfolding generateTypeScriptTypes_eq by auto
qed

lemma generateInputTypes_returns:
  assumes "\<And>n info f. (n, info) \<in> set defs \<Longrightarrow> f \<in> set (td_fields info) \<Longrightarrow> is_Str (fi_type f)"
  shows "\<exists>t. generateInputTypes tm defs opts = Inr t"
proof -
  have "\<exists>ds. mapE (\<lambda>info. generateTypeDefinition tm info opts) (map snd defs) = Inr ds"
  proof (rule mapE_returns)
    fix info assume "info \<in> set (map snd defs)"
    then obtain n where "(n, info) \<in> set defs" by auto
    from assms[OF this] show "\<exists>y. generateTypeDefinition tm info opts = Inr y"
      by (rule generateTypeDefinition_returns)
  qed
  then show ?thesis
    unfolding generateInputTypes_eq by auto
qed

lemma generateInterfaces_returns:
  assumes "\<And>n info f. (n, info) \<in> set defs \<Longrightarrow> f \<in> set (if_fields info) \<Longrightarrow> is_Str (fi_type f)"
  shows "\<exists>t. generateInterfaces tm defs opts = Inr t"
proof -
  have "\<exists>ds. mapE (\<lambda>info. generateInterfaceDeclaration tm info opts) (map snd defs) = Inr ds"
  proof (rule mapE_returns)
    fix info assume "info \<in> set (map snd defs)"
    then obtain n where "(n, info) \<in> set defs" by auto
    from assms[OF this] show "\<exists>y. generateInterfaceDeclaration tm info opts = Inr y"
      by (rule generateInterfaceDeclaration_returns)
  qed
  then show ?thesis
    unfolding generateInterfaces_eq by auto
qed

lemma generateAll_returns:
  assumes "stringTyped tm doc"
  shows "\<exists>units. generateAll tm doc opts = Inr units"
proof -
  obtain t1 where t1: "generateTypeScriptTypes tm (objects (parseExtendedTypes tm doc)) opts = Inr t1"
    using generateTypeScriptTypes_returns[of "objects (parseExtendedTypes tm doc)" tm opts]
      objects_string_fields[OF assms] by blast
  obtain t2 where t2: "generateInputTypes tm (inputs (parseExtendedTypes tm doc)) opts = Inr t2"
    using generateInputTypes_returns[of "inputs (parseExtendedTypes tm doc)" tm opts]
      inputs_string_fields[OF assms] by blast
  obtain t4 where t4: "generateInterfaces tm (interfaces (parseExtendedTypes tm doc)) opts = Inr t4"
    using generateInterfaces_returns[of "interfaces (parseExtendedTypes tm doc)" tm opts]
      interfaces_string_fields[OF assms] by blast
  obtain t6 where t6: "generateOperations tm (parseOperations tm doc) opts = Inr t6"
    using generateOperations_returns[OF assms] by blast
  show ?thesis
    unfolding generateAll_def Let_def hasOperations_parse t1 t2 t4 t6
    by (simp add: pushIf_def bindE_def)
qed

text \<open>
  Whenever \<open>generateAll\<close> returns, the file names of its units are, in this order,
  \<open>types.ts\<close>, \<open>inputs.ts\<close>, \<open>enums.ts\<close>, \<open>interfaces.ts\<close>, \<open>unions.ts\<close>, \<open>operations.ts\<close>, each
  one present exactly when its category has an entry; there are fewer than six units
  exactly when some category is empty; and the operations unit is there exactly when
  one of the three root sequences is not empty.
\<close>

lemma generateAll_units:
  assumes "generateAll tm doc opts = Inr units"
  shows "map filename units =
     (if objects (parseExtendedTypes tm doc) = [] then [] else [''types.ts''])
     @ (if inputs (parseExtendedTypes tm doc) = [] then [] else [''inputs.ts''])
     @ (if enums (parseExtendedTypes tm doc) = [] then [] else [''enums.ts''])
     @ (if interfaces (parseExtendedTypes tm doc) = [] then [] else [''interfaces.ts''])
     @ (if unions (parseExtendedTypes tm doc) = [] then [] else [''unions.ts''])
     @ (if rootsEmpty (parseOperations tm doc) then [] else [''operations.ts''])
   \<and> (length units < 6) =
       (objects (parseExtendedTypes tm doc) = [] \<or> inputs (parseExtendedTypes tm doc) = []
        \<or> enums (parseExtendedTypes tm doc) = [] \<or> interfaces (parseExtendedTypes tm doc) = []
        \<or> unions (parseExtendedTypes tm doc) = [] \<or> rootsEmpty (parseOperations tm doc))
   \<and> (''operations.ts'' \<in> set (map filename units)) =
       (\<not> rootsEmpty (parseOperations tm doc))"
proof -
  have len: "length units = length (map filename units)"
    by simp
  show ?thesis
    unfolding len generateAll_filenames[OF assms] by simp
qed

text \<open>
  C6, evaluated at \<open>type Query { f: toString }\<close>: the objects bucket has an entry and the
  Query root has a field, so the claim calls for the units \<open>types.ts\<close> and
  \<open>operations.ts\<close>; \<open>generateAll\<close> returns no unit, it throws a \<open>TypeError\<close>. The resolver
  read \<open>typeMap['toString']\<close>, found the function that the plain object inherits from
  \<open>Object.prototype\<close> and stored it as the flattened type of the field; the renderer then
  calls \<open>endsWith\<close> on it. The same happens for \<open>constructor\<close>.
\<close>

theorem C6_generateAll_throws:
  "objects (parseExtendedTypes typeMap docToString) \<noteq> []
   \<and> \<not> rootsEmpty (parseOperations typeMap docToString)
   \<and> getTypeName typeMap (NamedType ''toString'') = Inherited ''toString''
   \<and> generateAll typeMap docToString noOptions = Inl TypeError
   \<and> generateAll typeMap
       [ObjectTypeDefinition ''A'' None
          (Some [\<lparr>fd_name = ''f'', fd_arguments = Some [],
                  fd_type = NamedType ''constructor'', fd_description = None\<rparr>])]
       noOptions = Inl TypeError"
  by code_simp

text \<open>
  C9: whenever \<open>generateAll\<close> returns, it has a unit named \<open>operations.ts\<close> exactly when one
  of the three root sequences is not empty; there is then exactly one such unit, and
  its content is the banner followed by exactly three interface declarations, for
  Query, Mutation and Subscription in this order, each with one method signature per
  field of its root; the body of a root without fields is the empty line. \<open>generateAll\<close>
  returns for every document whose type references all flatten to strings.
\<close>

theorem C9_operations_unit:
  "(\<forall>units. generateAll tm doc opts = Inr units \<longrightarrow>
      (rootsEmpty (parseOperations tm doc) \<longrightarrow>
         filter (\<lambda>u. filename u = ''operations.ts'') units = [])
    \<and> (\<not> rootsEmpty (parseOperations tm doc) \<longrightarrow>
         (\<exists>lq lm ls.
            mapE (operationFieldLine tm opts) (rootFields (parseOperations tm doc) ''Query'')
              = Inr lq
          \<and> mapE (operationFieldLine tm opts) (rootFields (parseOperations tm doc) ''Mutation'')
              = Inr lm
          \<and> mapE (operationFieldLine tm opts)
                (rootFields (parseOperations tm doc) ''Subscription'') = Inr ls
          \<and> length lq = length (rootFields (parseOperations tm doc) ''Query'')
          \<and> length lm = length (rootFields (parseOperations tm doc) ''Mutation'')
          \<and> length ls = length (rootFields (parseOperations tm doc) ''Subscription'')
          \<and> filter (\<lambda>u. filename u = ''operations.ts'') units =
              [\<lparr>filename = ''operations.ts'',
                content =
                  join ''\<newline>''
                    (banner ''Operations''
                     @ interfaceBlock (formatTypeName ''Query'' opts) (join ''\<newline>'' lq)
                     @ interfaceBlock (formatTypeName ''Mutation'' opts) (join ''\<newline>'' lm)
                     @ interfaceBlock (formatTypeName ''Subscription'' opts)
                         (join ''\<newline>'' ls))\<rparr>])))
   \<and> (stringTyped tm doc \<longrightarrow> (\<exists>units. generateAll tm doc opts = Inr units))
   \<and> mapE (operationFieldLine tm opts) [] = Inr []
   \<and> interfaceBlock nm (join ''\<newline>'' [])
       = [''export interface '' @ nm @ '' {'', '''', ''}'', '''']"
proof -
  have main: "(rootsEmpty (parseOperations tm doc) \<longrightarrow>
         filter (\<lambda>u. filename u = ''operations.ts'') units = [])
    \<and> (\<not> rootsEmpty (parseOperations tm doc) \<longrightarrow>
         (\<exists>lq lm ls.
            mapE (operationFieldLine tm opts) (rootFields (parseOperations tm doc) ''Query'')
              = Inr lq
          \<and> mapE (operationFieldLine tm opts) (rootFields (parseOperations tm doc) ''Mutation'')
              = Inr lm
          \<and> mapE (operationFieldLine tm opts)
                (rootFields (parseOperations tm doc) ''Subscription'') = Inr ls
          \<and> length lq = length (rootFields (parseOperations tm doc) ''Query'')
          \<and> length lm = length (rootFields (parseOperations tm doc) ''Mutation'')
          \<and> length ls = length (rootFields (parseOperations tm doc) ''Subscription'')
          \<and> filter (\<lambda>u. filename u = ''operations.ts'') units =
              [\<lparr>filename = ''operations.ts'',
                content =
                  join ''\<newline>''
                    (banner ''Operations''
                     @ interfaceBlock (formatTypeName ''Query'' opts) (join ''\<newline>'' lq)
                     @ interfaceBlock (formatTypeName ''Mutation'' opts) (join ''\<newline>'' lm)
                     @ interfaceBlock (formatTypeName ''Subscription'' opts)
                         (join ''\<newline>'' ls))\<rparr>]))"
    if ret: "generateAll tm doc opts = Inr units" for units
  proof (intro conjI impI)
    assume "rootsEmpty (parseOperations tm doc)"
    with generateAll_operations_unit[OF ret]
    show "filter (\<lambda>u. filename u = ''operations.ts'') units = []" by blast
  next
    assume "\<not> rootsEmpty (parseOperations tm doc)"
    with generateAll_operations_unit[OF ret]
    obtain t where t: "generateOperations tm (parseOperations tm doc) opts = Inr t"
      and u: "filter (\<lambda>u. filename u = ''operations.ts'') units
              = [\<lparr>filename = ''operations.ts'', content = t\<rparr>]"
      by blast
    from t obtain lq lm ls where
      l: "mapE (operationFieldLine tm opts) (rootFields (parseOperations tm doc) ''Query'')
            = Inr lq"
         "mapE (operationFieldLine tm opts) (rootFields (parseOperations tm doc) ''Mutation'')
            = Inr lm"
         "mapE (operationFieldLine tm opts)
            (rootFields (parseOperations tm doc) ''Subscription'') = Inr ls"
      and c: "t = join ''\<newline>''
                    (banner ''Operations''
                     @ interfaceBlock (formatTypeName ''Query'' opts) (join ''\<newline>'' lq)
                     @ interfaceBlock (formatTypeName ''Mutation'' opts) (join ''\<newline>'' lm)
                     @ interfaceBlock (formatTypeName ''Subscription'' opts)
                         (join ''\<newline>'' ls))"
      unfolding generateOperations_parse by (auto split: sum.splits)
    note n = mapE_length[OF l(1)] mapE_length[OF l(2)] mapE_length[OF l(3)]
    from l n u c show "\<exists>lq lm ls.
            mapE (operationFieldLine tm opts) (rootFields (parseOperations tm doc) ''Query'')
              = Inr lq
          \<and> mapE (operationFieldLine tm opts) (rootFields (parseOperations tm doc) ''Mutation'')
              = Inr lm
          \<and> mapE (operationFieldLine tm opts)
                (rootFields (parseOperations tm doc) ''Subscription'') = Inr ls
          \<and> length lq = length (rootFields (parseOperations tm doc) ''Query'')
          \<and> length lm = length (rootFields (parseOperations tm doc) ''Mutation'')
          \<and> length ls = length (rootFields (parseOperations tm doc) ''Subscription'')
          \<and> filter (\<lambda>u. filename u = ''operations.ts'') units =
              [\<lparr>filename = ''operations.ts'',
                content =
                  join ''\<newline>''
                    (banner ''Operations''
                     @ interfaceBlock (formatTypeName ''Query'' opts) (join ''\<newline>'' lq)
                     @ interfaceBlock (formatTypeName ''Mutation'' opts) (join ''\<newline>'' lm)
                     @ interfaceBlock (formatTypeName ''Subscription'' opts)
                         (join ''\<newline>'' ls))\<rparr>]"
      by blast
  qed
  have returns: "stringTyped tm doc \<longrightarrow> (\<exists>units. generateAll tm doc opts = Inr units)"
    using generateAll_returns by blast
  have empty: "mapE (operationFieldLine tm opts) [] = Inr []"
    by simp
  have body: "interfaceBlock nm (join ''\<newline>'' [])
       = [''export interface '' @ nm @ '' {'', '''', ''}'', '''']"
    by (simp add: interfaceBlock_def)
  from main returns empty body show ?thesis by (intro conjI allI impI) blast+
qed

text \<open>
  Witness for C9 at \<open>type Query { getUser(id: ID!): User }\<close>: \<open>generateAll\<close> returns, the
  Query root is not empty, and the Mutation and the Subscription interface are declared
  with an empty body.
\<close>

theorem C9_operations_unit_witness:
  "generateAll typeMap docC noOptions =
     Inr [\<lparr>filename = ''types.ts'',
           content = ''/* Auto-generated by koatty-graphql */\<newline>\<newline>// Type Definitions\<newline>\<newline>export interface Query {\<newline>  getUser: User;\<newline>}\<newline>''\<rparr>,
          \<lparr>filename = ''operations.ts'',
           content = ''/* Auto-generated by koatty-graphql */\<newline>\<newline>// Operations\<newline>\<newline>export interface Query {\<newline>  getUser(id: string): User;\<newline>}\<newline>\<newline>export interface Mutation {\<newline>\<newline>}\<newline>\<newline>export interface Subscription {\<newline>\<newline>}\<newline>''\<rparr>]
   \<and> \<not> rootsEmpty (parseOperations typeMap docC)
   \<and> (\<exists>lq lm ls.
         mapE (operationFieldLine typeMap noOptions)
           (rootFields (parseOperations typeMap docC) ''Query'') = Inr lq
       \<and> mapE (operationFieldLine typeMap noOptions)
           (rootFields (parseOperations typeMap docC) ''Mutation'') = Inr lm
       \<and> mapE (operationFieldLine typeMap noOptions)
           (rootFields (parseOperations typeMap docC) ''Subscription'') = Inr ls
       \<and> length lq = length (rootFields (parseOperations typeMap docC) ''Query'')
       \<and> length lm = length (rootFields (parseOperations typeMap docC) ''Mutation'')
       \<and> length ls = length (rootFields (parseOperations typeMap docC) ''Subscription'')
       \<and> [\<lparr>filename = ''operations.ts'',
            content = ''/* Auto-generated by koatty-graphql */\<newline>\<newline>// Operations\<newline>\<newline>export interface Query {\<newline>  getUser(id: string): User;\<newline>}\<newline>\<newline>export interface Mutation {\<newline>\<newline>}\<newline>\<newline>export interface Subscription {\<newline>\<newline>}\<newline>''\<rparr>]
          = [\<lparr>filename = ''operations.ts'',
              content =
                join ''\<newline>''
                  (banner ''Operations''
                   @ interfaceBlock (formatTypeName ''Query'' noOptions) (join ''\<newline>'' lq)
                   @ interfaceBlock (formatTypeName ''Mutation'' noOptions) (join ''\<newline>'' lm)
                   @ interfaceBlock (formatTypeName ''Subscription'' noOptions)
                       (join ''\<newline>'' ls))\<rparr>])"
proof -
  let ?U = "[\<lparr>filename = ''types.ts'',
           content = ''/* Auto-generated by koatty-graphql */\<newline>\<newline>// Type Definitions\<newline>\<newline>export interface Query {\<newline>  getUser: User;\<newline>}\<newline>''\<rparr>,
          \<lparr>filename = ''operations.ts'',
           content = ''/* Auto-generated by koatty-graphql */\<newline>\<newline>// Operations\<newline>\<newline>export interface Query {\<newline>  getUser(id: string): User;\<newline>}\<newline>\<newline>export interface Mutation {\<newline>\<newline>}\<newline>\<newline>export interface Subscription {\<newline>\<newline>}\<newline>''\<rparr>]"
  have g: "generateAll typeMap docC noOptions = Inr ?U"
    by code_simp
  have h: "\<not> rootsEmpty (parseOperations typeMap docC)"
    by code_simp
  have f: "filter (\<lambda>u. filename u = ''operations.ts'') ?U
           = [\<lparr>filename = ''operations.ts'',
           content = ''/* Auto-generated by koatty-graphql */\<newline>\<newline>// Operations\<newline>\<newline>export interface Query {\<newline>  getUser(id: string): User;\<newline>}\<newline>\<newline>export interface Mutation {\<newline>\<newline>}\<newline>\<newline>export interface Subscription {\<newline>\<newline>}\<newline>''\<rparr>]"
    by simp
  note T = conjunct1[OF C9_operations_unit[where tm = typeMap and doc = docC and opts = noOptions]]
  from T g have "(\<not> rootsEmpty (parseOperations typeMap docC) \<longrightarrow>
         (\<exists>lq lm ls.
            mapE (operationFieldLine typeMap noOptions)
              (rootFields (parseOperations typeMap docC) ''Query'') = Inr lq
          \<and> mapE (operationFieldLine typeMap noOptions)
              (rootFields (parseOperations typeMap docC) ''Mutation'') = Inr lm
          \<and> mapE (operationFieldLine typeMap noOptions)
                (rootFields (parseOperations typeMap docC) ''Subscription'') = Inr ls
          \<and> length lq = length (rootFields (parseOperations typeMap docC) ''Query'')
          \<and> length lm = length (rootFields (parseOperations typeMap docC) ''Mutation'')
          \<and> length ls = length (rootFields (parseOperations typeMap docC) ''Subscription'')
          \<and> filter (\<lambda>u. filename u = ''operations.ts'') ?U =
              [\<lparr>filename = ''operations.ts'',
                content =
                  join ''\<newline>''
                    (banner ''Operations''
                     @ interfaceBlock (formatTypeName ''Query'' noOptions) (join ''\<newline>'' lq)
                     @ interfaceBlock (formatTypeName ''Mutation'' noOptions) (join ''\<newline>'' lm)
                     @ interfaceBlock (formatTypeName ''Subscription'' noOptions)
                         (join ''\<newline>'' ls))\<rparr>]))"
    by blast
  with h have "\<exists>lq lm ls.
            mapE (operationFieldLine typeMap noOptions)
              (rootFields (parseOperations typeMap docC) ''Query'') = Inr lq
          \<and> mapE (operationFieldLine typeMap noOptions)
              (rootFields (parseOperations typeMap docC) ''Mutation'') = Inr lm
          \<and> mapE (operationFieldLine typeMap noOptions)
                (rootFields (parseOperations typeMap docC) ''Subscription'') = Inr ls
          \<and> length lq = length (rootFields (parseOperations typeMap docC) ''Query'')
          \<and> length lm = length (rootFields (parseOperations typeMap docC) ''Mutation'')
          \<and> length ls = length (rootFields (parseOperations typeMap docC) ''Subscription'')
          \<and> filter (\<lambda>u. filename u = ''operations.ts'') ?U =
              [\<lparr>filename = ''operations.ts'',
                content =
                  join ''\<newline>''
                    (banner ''Operations''
                     @ interfaceBlock (formatTypeName ''Query'' noOptions) (join ''\<newline>'' lq)
                     @ interfaceBlock (formatTypeName ''Mutation'' noOptions) (join ''\<newline>'' lm)
                     @ interfaceBlock (formatTypeName ''Subscription'' noOptions)
                         (join ''\<newline>'' ls))\<rparr>]"
    by (rule mp[rotated])
  then have e: "\<exists>lq lm ls.
         mapE (operationFieldLine typeMap noOptions)
           (rootFields (parseOperations typeMap docC) ''Query'') = Inr lq
       \<and> mapE (operationFieldLine typeMap noOptions)
           (rootFields (parseOperations typeMap docC) ''Mutation'') = Inr lm
       \<and> mapE (operationFieldLine typeMap noOptions)
           (rootFields (parseOperations typeMap docC) ''Subscription'') = Inr ls
       \<and> length lq = length (rootFields (parseOperations typeMap docC) ''Query'')
       \<and> length lm = length (rootFields (parseOperations typeMap docC) ''Mutation'')
       \<and> length ls = length (rootFields (parseOperations typeMap docC) ''Subscription'')
       \<and> [\<lparr>filename = ''operations.ts'',
            content = ''/* Auto-generated by koatty-graphql */\<newline>\<newline>// Operations\<newline>\<newline>export interface Query {\<newline>  getUser(id: string): User;\<newline>}\<newline>\<newline>export interface Mutation {\<newline>\<newline>}\<newline>\<newline>export interface Subscription {\<newline>\<newline>}\<newline>''\<rparr>]
          = [\<lparr>filename = ''operations.ts'',
              content =
                join ''\<newline>''
                  (banner ''Operations''
                   @ interfaceBlock (formatTypeName ''Query'' noOptions) (join ''\<newline>'' lq)
                   @ interfaceBlock (formatTypeName ''Mutation'' noOptions) (join ''\<newline>'' lm)
                   @ interfaceBlock (formatTypeName ''Subscription'' noOptions)
                       (join ''\<newline>'' ls))\<rparr>]"
    unfolding f .
  from g h e show ?thesis by (intro conjI)
qed

section \<open>A root definition in both pipelines\<close>

lemma map_of_tagged:
  "inj f \<Longrightarrow> map_of (map (\<lambda>p. (fst p, f (snd p))) ps) k = Some (f v) \<longleftrightarrow> map_of ps k = Some v"
  by (induction ps) (auto simp: inj_def)

lemma entriesFor_append:
  "entriesFor tm b (xs @ ys) = entriesFor tm b xs @ entriesFor tm b ys"
  by (simp add: entriesFor_def)

lemma objects_last_entry:
  assumes "(Objects, n) \<notin> set (kindNames post)" and "n \<noteq> ''__proto__''"
  shows "map_of (objects (parseExtendedTypes tm (pre @ ObjectTypeDefinition n dsc fs # post))) n
         = Some (objectInfo tm n dsc fs)"
proof -
  let ?doc = "pre @ ObjectTypeDefinition n dsc fs # post"
  let ?E = "TypeEntry (objectInfo tm n dsc fs)"
  have es: "entriesFor tm Objects ?doc
            = entriesFor tm Objects pre @ (n, ?E) # entriesFor tm Objects post"
    by (simp add: entriesFor_def)
  have "n \<notin> set (map fst (entriesFor tm Objects post))"
    unfolding keys_entriesFor using assms(1) by force
  then have fresh: "map_of (rev (entriesFor tm Objects post)) n = None"
    by (simp add: map_of_eq_None_iff)
  have "map_of (rev (entriesFor tm Objects ?doc)) n = Some ?E"
    unfolding es by (simp add: map_add_def fresh)
  then have "map_of (bucketEntries (parseExtendedTypes tm ?doc) Objects) n = Some ?E"
    unfolding bucketEntries_parse map_of_object_assign using assms(2) by simp
  then show ?thesis
    by (simp add: map_of_tagged inj_def)
qed

lemma declarationLines_append:
  "declarationLines (a @ y # b) = declarationLines a @ [y] @ ('''' # declarationLines b)"
  by (simp add: declarationLines_def)

lemma types_unit_contains:
  assumes "generateTypeScriptTypes tm objs opts = Inr t" and "(n, info) \<in> set objs"
      and "td_kind info \<noteq> SCALAR_TYPE_DEFINITION" and "td_name info = n"
  shows "\<exists>fieldLines before rest.
           mapE (\<lambda>f. generateFieldDeclaration tm f opts) (td_fields info) = Inr fieldLines
         \<and> t = join ''\<newline>''
               (before
                @ [''export interface '' @ formatTypeName n opts @ '' {\<newline>''
                   @ join ''\<newline>'' fieldLines @ ''\<newline>}'']
                @ rest)"
proof -
  from assms(2) obtain xs ys where split: "objs = xs @ (n, info) # ys"
    by (auto simp: in_set_conv_decomp)
  from assms(1) obtain ds where
    ds: "mapE (\<lambda>info. generateTypeDefinition tm info opts) (map snd objs) = Inr ds"
    and t: "t = join ''\<newline>'' (banner ''Type Definitions'' @ declarationLines ds)"
    unfolding generateTypeScriptTypes_eq by (auto split: sum.splits)
  from ds have "mapE (\<lambda>info. generateTypeDefinition tm info opts)
                  (map snd xs @ info # map snd ys) = Inr ds"
    unfolding split by simp
  from mapE_Inr_append[OF this] obtain a c where
    a: "mapE (\<lambda>info. generateTypeDefinition tm info opts) (map snd xs) = Inr a"
    and c: "mapE (\<lambda>info. generateTypeDefinition tm info opts) (info # map snd ys) = Inr c"
    and dsac: "ds = a @ c"
    by blast
  from mapE_Inr_Cons[OF c] obtain y b where
    y: "generateTypeDefinition tm info opts = Inr y" and cyb: "c = y # b"
    by blast
  from y obtain fieldLines where
    fl: "mapE (\<lambda>f. generateFieldDeclaration tm f opts) (td_fields info) = Inr fieldLines"
    and decl: "y = ''export interface '' @ formatTypeName n opts @ '' {\<newline>''
                   @ join ''\<newline>'' fieldLines @ ''\<newline>}''"
    using assms(3,4) unfolding generateTypeDefinition_def Let_def
    by (auto split: sum.splits)
  have "t = join ''\<newline>''
              ((banner ''Type Definitions'' @ declarationLines a)
               @ [y] @ ('''' # declarationLines b))"
    unfolding t dsac cyb declarationLines_append by simp
  with fl show ?thesis unfolding decl by blast
qed

lemma operations_unit_contains:
  assumes "generateOperations tm (parseOperations tm doc) opts = Inr t"
      and "n \<in> set operationTypes"
  shows "\<exists>signatures before rest.
           mapE (operationFieldLine tm opts) (rootFields (parseOperations tm doc) n)
             = Inr signatures
         \<and> t = join ''\<newline>''
               (before
                @ interfaceBlock (formatTypeName n opts) (join ''\<newline>'' signatures)
                @ rest)"
proof -
  from assms(1) obtain lq lm ls where
    l: "mapE (operationFieldLine tm opts) (rootFields (parseOperations tm doc) ''Query'')
          = Inr lq"
       "mapE (operationFieldLine tm opts) (rootFields (parseOperations tm doc) ''Mutation'')
          = Inr lm"
       "mapE (operationFieldLine tm opts)
          (rootFields (parseOperations tm doc) ''Subscription'') = Inr ls"
    and g: "t = join ''\<newline>''
                  (banner ''Operations''
                   @ interfaceBlock (formatTypeName ''Query'' opts) (join ''\<newline>'' lq)
                   @ interfaceBlock (formatTypeName ''Mutation'' opts) (join ''\<newline>'' lm)
                   @ interfaceBlock (formatTypeName ''Subscription'' opts)
                       (join ''\<newline>'' ls))"
    unfolding generateOperations_parse by (auto split: sum.splits)
  let ?B = "\<lambda>k l. interfaceBlock (formatTypeName k opts) (join ''\<newline>'' l)"
  from assms(2) consider "n = ''Query''" | "n = ''Mutation''" | "n = ''Subscription''"
    by (auto simp: operationTypes_def)
  then show ?thesis
  proof cases
    case 1
    have "t = join ''\<newline>''
                (banner ''Operations'' @ ?B n lq @ (?B ''Mutation'' lm @ ?B ''Subscription'' ls))"
      unfolding g 1 by (simp only: append_assoc)
    with l(1) show ?thesis unfolding 1 by blast
  next
    case 2
    have "t = join ''\<newline>''
                ((banner ''Operations'' @ ?B ''Query'' lq) @ ?B n lm @ ?B ''Subscription'' ls)"
      unfolding g 2 by (simp only: append_assoc)
    with l(2) show ?thesis unfolding 2 by blast
  next
    case 3
    have "t = join ''\<newline>''
                ((banner ''Operations'' @ ?B ''Query'' lq @ ?B ''Mutation'' lm) @ ?B n ls @ [])"
      unfolding g 3 by (simp only: append_assoc append_Nil2)
    with l(3) show ?thesis unfolding 3 by blast
  qed
qed

lemma rootFields_decompose:
  assumes "n \<in> set operationTypes"
  shows "rootFields (parseOperations tm (pre @ ObjectTypeDefinition n dsc fs # post)) n
         = rootFields (parseOperations tm pre) n
           @ map (operationField tm) (case fs of None \<Rightarrow> [] | Some fl \<Rightarrow> fl)
           @ rootFields (parseOperations tm post) n"
  by (simp add: rootFields_parse[OF assms])

text \<open>
  C10, as stated, at two documents. At \<open>type Query\<close> the definition is an object type
  definition named Query, and \<open>generateAll\<close> renders it once, in \<open>types.ts\<close>; there is no
  \<open>operations.ts\<close>. At \<open>type Query { a: Int }  type Query { b: Int }\<close> the first definition
  is an object type definition named Query and is not in the objects bucket, which
  holds the second one under the name; \<open>types.ts\<close> declares \<open>b\<close> only, \<open>operations.ts\<close>
  declares \<open>a\<close> and \<open>b\<close>.
\<close>

theorem C10_rendered_once_counterexample:
  "ObjectTypeDefinition ''Query'' None (Some []) \<in> set docQ
   \<and> generateAll typeMap docQ noOptions =
       Inr [\<lparr>filename = ''types.ts'',
             content = ''/* Auto-generated by koatty-graphql */\<newline>\<newline>// Type Definitions\<newline>\<newline>export interface Query {\<newline>\<newline>}\<newline>''\<rparr>]
   \<and> hd docQQ \<in> set docQQ \<and> isRootDefinition (hd docQQ)
   \<and> \<not> inBucket typeMap (parseExtendedTypes typeMap docQQ) Objects (hd docQQ)
   \<and> generateAll typeMap docQQ noOptions =
       Inr [\<lparr>filename = ''types.ts'',
             content = ''/* Auto-generated by koatty-graphql */\<newline>\<newline>// Type Definitions\<newline>\<newline>export interface Query {\<newline>  b: number;\<newline>}\<newline>''\<rparr>,
            \<lparr>filename = ''operations.ts'',
             content = ''/* Auto-generated by koatty-graphql */\<newline>\<newline>// Operations\<newline>\<newline>export interface Query {\<newline>  a(): number;\<newline>  b(): number;\<newline>}\<newline>\<newline>export interface Mutation {\<newline>\<newline>}\<newline>\<newline>export interface Subscription {\<newline>\<newline>}\<newline>''\<rparr>]"
  by code_simp

text \<open>
  C10 (amended): let an object type definition named Query, Mutation or Subscription
  stand in a document, with no object type definition of the same name after it, and
  let every type reference of the document flatten to a string. Then the objects bucket
  of \<open>parseExtendedTypes\<close> holds the entry of this definition under its name; the fields
  that \<open>parseOperations\<close> extracts for the name are those of the definitions before it,
  then its own, then those of the definitions after it; \<open>generateAll\<close> returns, with
  exactly one unit \<open>types.ts\<close>, which declares a structural interface of that name with
  the fields of the definition, and with a unit \<open>operations.ts\<close> exactly when one of the
  three root sequences is not empty, which then declares a method-signature interface
  of that name with one signature per extracted field; a root sequence is not empty
  whenever the definition has a field.
\<close>

theorem C10_root_definition_rendered:
  assumes "doc = pre @ ObjectTypeDefinition n dsc fs # post"
      and "n \<in> set operationTypes"
      and "(Objects, n) \<notin> set (kindNames post)"
      and "stringTyped tm doc"
  shows "map_of (objects (parseExtendedTypes tm doc)) n = Some (objectInfo tm n dsc fs)
       \<and> rootFields (parseOperations tm doc) n
           = rootFields (parseOperations tm pre) n
             @ map (operationField tm) (case fs of None \<Rightarrow> [] | Some fl \<Rightarrow> fl)
             @ rootFields (parseOperations tm post) n
       \<and> (\<exists>units fieldLines signatures before rest before' rest'.
             generateAll tm doc opts = Inr units
           \<and> mapE (\<lambda>f. generateFieldDeclaration tm f opts)
                 (td_fields (objectInfo tm n dsc fs)) = Inr fieldLines
           \<and> filter (\<lambda>u. filename u = ''types.ts'') units =
               [\<lparr>filename = ''types.ts'',
                 content = join ''\<newline>''
                   (before
                    @ [''export interface '' @ formatTypeName n opts @ '' {\<newline>''
                       @ join ''\<newline>'' fieldLines @ ''\<newline>}'']
                    @ rest)\<rparr>]
           \<and> mapE (operationFieldLine tm opts) (rootFields (parseOperations tm doc) n)
               = Inr signatures
           \<and> filter (\<lambda>u. filename u = ''operations.ts'') units =
               (if rootsEmpty (parseOperations tm doc) then []
                else [\<lparr>filename = ''operations.ts'',
                       content = join ''\<newline>''
                         (before'
                          @ interfaceBlock (formatTypeName n opts) (join ''\<newline>'' signatures)
                          @ rest')\<rparr>]))
       \<and> ((case fs of None \<Rightarrow> [] | Some fl \<Rightarrow> fl) = [] \<or> \<not> rootsEmpty (parseOperations tm doc))"
proof -
  from assms(2) have np: "n \<noteq> ''__proto__''"
    by (auto simp: operationTypes_def)
  have look: "map_of (objects (parseExtendedTypes tm doc)) n = Some (objectInfo tm n dsc fs)"
    unfolding assms(1) using assms(3) np by (rule objects_last_entry)
  have fields: "rootFields (parseOperations tm doc) n
           = rootFields (parseOperations tm pre) n
             @ map (operationField tm) (case fs of None \<Rightarrow> [] | Some fl \<Rightarrow> fl)
             @ rootFields (parseOperations tm post) n"
    unfolding assms(1) using assms(2) by (rule rootFields_decompose)
  from generateAll_returns[OF assms(4), of opts]
  obtain units where ret: "generateAll tm doc opts = Inr units" by blast
  from look have mem: "(n, objectInfo tm n dsc fs) \<in> set (objects (parseExtendedTypes tm doc))"
    by (rule map_of_SomeD)
  then have nonempty: "objects (parseExtendedTypes tm doc) \<noteq> []" by auto
  with generateAll_types_unit[OF ret]
  obtain t where t: "generateTypeScriptTypes tm (objects (parseExtendedTypes tm doc)) opts = Inr t"
    and tu: "filter (\<lambda>u. filename u = ''types.ts'') units
             = [\<lparr>filename = ''types.ts'', content = t\<rparr>]"
    by blast
  have k: "td_kind (objectInfo tm n dsc fs) \<noteq> SCALAR_TYPE_DEFINITION"
          "td_name (objectInfo tm n dsc fs) = n"
    by (simp_all add: objectInfo_def)
  from types_unit_contains[OF t mem k]
  obtain fieldLines before rest where
    fl: "mapE (\<lambda>f. generateFieldDeclaration tm f opts)
           (td_fields (objectInfo tm n dsc fs)) = Inr fieldLines"
    and tc: "t = join ''\<newline>''
               (before
                @ [''export interface '' @ formatTypeName n opts @ '' {\<newline>''
                   @ join ''\<newline>'' fieldLines @ ''\<newline>}'']
                @ rest)"
    by blast
  from root_signatures_return[OF assms(4) assms(2), of opts]
  obtain signatures where
    sg: "mapE (operationFieldLine tm opts) (rootFields (parseOperations tm doc) n)
         = Inr signatures"
    by blast
  have ops: "\<exists>before' rest'.
           filter (\<lambda>u. filename u = ''operations.ts'') units =
               (if rootsEmpty (parseOperations tm doc) then []
                else [\<lparr>filename = ''operations.ts'',
                       content = join ''\<newline>''
                         (before'
                          @ interfaceBlock (formatTypeName n opts) (join ''\<newline>'' signatures)
                          @ rest')\<rparr>])"
  proof (cases "rootsEmpty (parseOperations tm doc)")
    case True
    with generateAll_operations_unit[OF ret] show ?thesis by simp
  next
    case False
    with generateAll_operations_unit[OF ret]
    obtain t' where t': "generateOperations tm (parseOperations tm doc) opts = Inr t'"
      and ou: "filter (\<lambda>u. filename u = ''operations.ts'') units
               = [\<lparr>filename = ''operations.ts'', content = t'\<rparr>]"
      by blast
    from operations_unit_contains[OF t' assms(2)] sg
    obtain before' rest' where
      "t' = join ''\<newline>''
               (before'
                @ interfaceBlock (formatTypeName n opts) (join ''\<newline>'' signatures)
                @ rest')"
      by auto
    with False ou show ?thesis by auto
  qed
  have some: "(case fs of None \<Rightarrow> [] | Some fl \<Rightarrow> fl) = [] \<or> \<not> rootsEmpty (parseOperations tm doc)"
  proof (cases "(case fs of None \<Rightarrow> [] | Some fl \<Rightarrow> fl) = []")
    case True
    then show ?thesis by simp
  next
    case False
    with fields have "rootFields (parseOperations tm doc) n \<noteq> []" by simp
    with assms(2) have "\<not> rootsEmpty (parseOperations tm doc)"
      by (auto simp: rootsEmpty_def operationTypes_def)
    then show ?thesis by simp
  qed
  from ops obtain before' rest' where ops':
    "filter (\<lambda>u. filename u = ''operations.ts'') units =
               (if rootsEmpty (parseOperations tm doc) then []
                else [\<lparr>filename = ''operations.ts'',
                       content = join ''\<newline>''
                         (before'
                          @ interfaceBlock (formatTypeName n opts) (join ''\<newline>'' signatures)
                          @ rest')\<rparr>])"
    by blast
  have ex: "\<exists>units fieldLines signatures before rest before' rest'.
             generateAll tm doc opts = Inr units
           \<and> mapE (\<lambda>f. generateFieldDeclaration tm f opts)
                 (td_fields (objectInfo tm n dsc fs)) = Inr fieldLines
           \<and> filter (\<lambda>u. filename u = ''types.ts'') units =
               [\<lparr>filename = ''types.ts'',
                 content = join ''\<newline>''
                   (before
                    @ [''export interface '' @ formatTypeName n opts @ '' {\<newline>''
                       @ join ''\<newline>'' fieldLines @ ''\<newline>}'']
                    @ rest)\<rparr>]
           \<and> mapE (operationFieldLine tm opts) (rootFields (parseOperations tm doc) n)
               = Inr signatures
           \<and> filter (\<lambda>u. filename u = ''operations.ts'') units =
               (if rootsEmpty (parseOperations tm doc) then []
                else [\<lparr>filename = ''operations.ts'',
                       content = join ''\<newline>''
                         (before'
                          @ interfaceBlock (formatTypeName n opts) (join ''\<newline>'' signatures)
                          @ rest')\<rparr>])"
    using ret fl tu[unfolded tc] sg ops' by blast
  from look fields ex some show ?thesis by (intro conjI)
qed

text \<open>
  Witness for C10 at \<open>type Query { getUser(id: ID!): User }\<close>.
\<close>

theorem C10_root_definition_rendered_witness:
  "stringTyped typeMap docC
   \<and> map_of (objects (parseExtendedTypes typeMap docC)) ''Query''
       = Some (objectInfo typeMap ''Query'' None
           (Some [\<lparr>fd_name = ''getUser'',
                   fd_arguments = Some [\<lparr>iv_name = ''id'',
                                          iv_type = NonNullType (NamedType ''ID''),
                                          iv_description = None\<rparr>],
                   fd_type = NamedType ''User'', fd_description = None\<rparr>]))
   \<and> rootFields (parseOperations typeMap docC) ''Query''
       = [\<lparr>of_name = ''getUser'', of_args = [\<lparr>oa_name = ''id'', oa_type = Str ''string''\<rparr>],
           of_returnType = Str ''User''\<rparr>]
   \<and> \<not> rootsEmpty (parseOperations typeMap docC)
   \<and> generateAll typeMap docC noOptions =
       Inr [\<lparr>filename = ''types.ts'',
             content = ''/* Auto-generated by koatty-graphql */\<newline>\<newline>// Type Definitions\<newline>\<newline>export interface Query {\<newline>  getUser: User;\<newline>}\<newline>''\<rparr>,
            \<lparr>filename = ''operations.ts'',
             content = ''/* Auto-generated by koatty-graphql */\<newline>\<newline>// Operations\<newline>\<newline>export interface Query {\<newline>  getUser(id: string): User;\<newline>}\<newline>\<newline>export interface Mutation {\<newline>\<newline>}\<newline>\<newline>export interface Subscription {\<newline>\<newline>}\<newline>''\<rparr>]"
proof -
  let ?fs = "Some [\<lparr>fd_name = ''getUser'',
                   fd_arguments = Some [\<lparr>iv_name = ''id'',
                                          iv_type = NonNullType (NamedType ''ID''),
                                          iv_description = None\<rparr>],
                   fd_type = NamedType ''User'', fd_description = None\<rparr>]"
  have h1: "docC = [] @ ObjectTypeDefinition ''Query'' None ?fs # []"
    by (simp add: docC_def)
  have h2: "''Query'' \<in> set operationTypes"
    by (simp add: operationTypes_def)
  have h3: "(Objects, ''Query'') \<notin> set (kindNames [])"
    by (simp add: kindNames_def)
  have h4: "stringTyped typeMap docC"
    by code_simp
  note T = C10_root_definition_rendered[OF h1 h2 h3 h4, of noOptions]
  from T have a: "map_of (objects (parseExtendedTypes typeMap docC)) ''Query''
       = Some (objectInfo typeMap ''Query'' None ?fs)"
    by (rule conjunct1)
  from T have "rootFields (parseOperations typeMap docC) ''Query''
           = rootFields (parseOperations typeMap []) ''Query''
             @ map (operationField typeMap) (case ?fs of None \<Rightarrow> [] | Some fl \<Rightarrow> fl)
             @ rootFields (parseOperations typeMap []) ''Query''"
    by (rule conjunct1[OF conjunct2])
  also have "\<dots> = [\<lparr>of_name = ''getUser'',
                      of_args = [\<lparr>oa_name = ''id'', oa_type = Str ''string''\<rparr>],
                      of_returnType = Str ''User''\<rparr>]"
    by code_simp
  finally have b: "rootFields (parseOperations typeMap docC) ''Query''
       = [\<lparr>of_name = ''getUser'', of_args = [\<lparr>oa_name = ''id'', oa_type = Str ''string''\<rparr>],
           of_returnType = Str ''User''\<rparr>]" .
  from T have "(case ?fs of None \<Rightarrow> [] | Some fl \<Rightarrow> fl) = []
               \<or> \<not> rootsEmpty (parseOperations typeMap docC)"
    by (rule conjunct2[OF conjunct2[OF conjunct2]])
  then have c: "\<not> rootsEmpty (parseOperations typeMap docC)"
    by simp
  have d: "generateAll typeMap docC noOptions =
       Inr [\<lparr>filename = ''types.ts'',
             content = ''/* Auto-generated by koatty-graphql */\<newline>\<newline>// Type Definitions\<newline>\<newline>export interface Query {\<newline>  getUser: User;\<newline>}\<newline>''\<rparr>,
            \<lparr>filename = ''operations.ts'',
             content = ''/* Auto-generated by koatty-graphql */\<newline>\<newline>// Operations\<newline>\<newline>export interface Query {\<newline>  getUser(id: string): User;\<newline>}\<newline>\<newline>export interface Mutation {\<newline>\<newline>}\<newline>\<newline>export interface Subscription {\<newline>\<newline>}\<newline>''\<rparr>]"
    by code_simp
  from h4 a b c d show ?thesis by (intro conjI)
qed

section \<open>Properties of the registry\<close>



section \<open>Properties of the document loader\<close>

text \<open>
  C8: when the path does not exist, \<open>parseGraphqlDocument\<close> throws the missing-source
  error after the existence test alone, with no read and no parse attempt. When the
  file is read and the parser throws, the value thrown to the caller is the one that
  the \<open>catch\<close> clause builds from what the parser threw. The grammar parser rejects a
  source by throwing its syntax error, an \<open>Error\<close> (the constructor \<open>OtherError\<close>); the
  value thrown to the caller is then an error whose message names the path and whose
  cause is the parser's error. When the parser accepts the source, the document is
  returned.
  The call returns a document only in that last case: in every other case the error is
  the outcome of the call, thrown to its caller. The parser is called at most once in
  an invocation, and exactly once whenever the path exists and the file can be read.
\<close>

theorem C8_parseGraphqlDocument:
  "(\<not> existsSync f \<longrightarrow>
      parseGraphqlDocument existsSync readFileSync parse f =
        ([ExistsSync f], Inl (GraphQLParseError (''Schema file not found: '' @ f) None)))
   \<and> (existsSync f \<and> readFileSync f = Inr src \<and> parse src = Inl err \<longrightarrow>
        parseGraphqlDocument existsSync readFileSync parse f =
          ([ExistsSync f, ReadFileSync f, Parse src], Inl (catch_clause f err)))
   \<and> catch_clause f (OtherError msg)
       = GraphQLParseError (''Failed to parse schema file: '' @ f) (Some (OtherError msg))
   \<and> (existsSync f \<and> readFileSync f = Inr src \<and> parse src = Inr document \<longrightarrow>
        parseGraphqlDocument existsSync readFileSync parse f =
          ([ExistsSync f, ReadFileSync f, Parse src], Inr document))
   \<and> (\<exists>d. snd (parseGraphqlDocument existsSync readFileSync parse f) = Inr d)
       = (existsSync f \<and> (\<exists>s d. readFileSync f = Inr s \<and> parse s = Inr d))
   \<and> parse_attempts (parseGraphqlDocument existsSync readFileSync parse f) =
        (if existsSync f \<and> isl (readFileSync f) = False then 1 else 0)
   \<and> parse_attempts (parseGraphqlDocument existsSync readFileSync parse f) \<le> 1"
  by (auto simp: parseGraphqlDocument_def parse_attempts_def split: sum.splits)

text \<open>
  Witness for C8: a missing path, and the one existing file with a rejecting and with an
  accepting parser.
\<close>

theorem C8_parseGraphqlDocument_witness:
  "\<not> oneFile_exists ''missing.graphql''
   \<and> parseGraphqlDocument oneFile_exists oneFile_read rejecting_parse ''missing.graphql'' =
        ([ExistsSync ''missing.graphql''],
         Inl (GraphQLParseError ''Schema file not found: missing.graphql'' None))
   \<and> oneFile_exists ''schema.graphql''
   \<and> oneFile_read ''schema.graphql'' = Inr ''type Query { getUser(id: ID!): User }''
   \<and> rejecting_parse ''type Query { getUser(id: ID!): User }'' = Inl (OtherError ''Syntax Error'')
   \<and> parseGraphqlDocument oneFile_exists oneFile_read rejecting_parse ''schema.graphql'' =
        ([ExistsSync ''schema.graphql'', ReadFileSync ''schema.graphql'',
          Parse ''type Query { getUser(id: ID!): User }''],
         Inl (GraphQLParseError ''Failed to parse schema file: schema.graphql''
                (Some (OtherError ''Syntax Error''))))
   \<and> parse_attempts
        (parseGraphqlDocument oneFile_exists oneFile_read rejecting_parse ''schema.graphql'') = 1
   \<and> accepting_parse ''type Query { getUser(id: ID!): User }'' = Inr docC
   \<and> parseGraphqlDocument oneFile_exists oneFile_read accepting_parse ''schema.graphql'' =
        ([ExistsSync ''schema.graphql'', ReadFileSync ''schema.graphql'',
          Parse ''type Query { getUser(id: ID!): User }''],
         Inr docC)
   \<and> parse_attempts
        (parseGraphqlDocument oneFile_exists oneFile_read accepting_parse ''schema.graphql'') = 1"
proof -
  have h0: "\<not> oneFile_exists ''missing.graphql''"
    by (simp add: oneFile_exists_def)
  have h1: "oneFile_exists ''schema.graphql''"
    by (simp add: oneFile_exists_def)
  have h2: "oneFile_read ''schema.graphql'' = Inr ''type Query { getUser(id: ID!): User }''"
    by (simp add: oneFile_read_def)
  have h3: "rejecting_parse ''type Query { getUser(id: ID!): User }''
            = Inl (OtherError ''Syntax Error'')"
    by (simp add: rejecting_parse_def)
  have h4: "accepting_parse ''type Query { getUser(id: ID!): User }'' = Inr docC"
    by (simp add: accepting_parse_def)
  from C8_parseGraphqlDocument[where existsSync = oneFile_exists and f = "''missing.graphql''"
         and readFileSync = oneFile_read and parse = rejecting_parse]
    h0
  have a: "parseGraphqlDocument oneFile_exists oneFile_read rejecting_parse ''missing.graphql'' =
        ([ExistsSync ''missing.graphql''],
         Inl (GraphQLParseError ''Schema file not found: missing.graphql'' None))"
    by simp
  from C8_parseGraphqlDocument[where existsSync = oneFile_exists and f = "''schema.graphql''"
         and readFileSync = oneFile_read and parse = rejecting_parse
         and src = "''type Query { getUser(id: ID!): User }''"
         and err = "OtherError ''Syntax Error''"]
    h1 h2 h3
  have b: "parseGraphqlDocument oneFile_exists oneFile_read rejecting_parse ''schema.graphql'' =
        ([ExistsSync ''schema.graphql'', ReadFileSync ''schema.graphql'',
          Parse ''type Query { getUser(id: ID!): User }''],
         Inl (GraphQLParseError ''Failed to parse schema file: schema.graphql''
                (Some (OtherError ''Syntax Error''))))
      \<and> parse_attempts
        (parseGraphqlDocument oneFile_exists oneFile_read rejecting_parse ''schema.graphql'') = 1"
    by (simp add: parse_attempts_def)
  from C8_parseGraphqlDocument[where existsSync = oneFile_exists and f = "''schema.graphql''"
         and readFileSync = oneFile_read and parse = accepting_parse
         and src = "''type Query { getUser(id: ID!): User }''" and document = docC]
    h1 h2 h4
  have c: "parseGraphqlDocument oneFile_exists oneFile_read accepting_parse ''schema.graphql'' =
        ([ExistsSync ''schema.graphql'', ReadFileSync ''schema.graphql'',
          Parse ''type Query { getUser(id: ID!): User }''],
         Inr docC)
      \<and> parse_attempts
        (parseGraphqlDocument oneFile_exists oneFile_read accepting_parse ''schema.graphql'') = 1"
    by (simp add: parse_attempts_def)
  from h0 a h1 h2 h3 b h4 c show ?thesis by blast
qed

end
